theory Spec2Isabelle
  imports Complex_Main "HOL-Library.Sublist"
begin

section \<open>The card record (src/types.ts)\<close>

text \<open>
  A \<open>string\<close> is a well-formed text, read as its UTF-8 bytes: the strings the program
  builds itself (literals, host names, encoded addresses, numbers) are of this kind. What
  the user types may in addition hold a lone surrogate; such a string is a \<open>js_string\<close>:
  its text, with every lone surrogate read as U+FFFD the way the URL constructor reads it,
  and whether it holds a lone surrogate. A value that the source types as a string but that
  is filled from parsed JSON (title and description) is kept as the run-time value it really
  is, see \<open>json\<close> below.
\<close>

datatype js_string = JsString (js_text: string) (loneSurrogate: bool)

datatype json =
    JNull
  | JBool bool
  | JNum rat
  | JStr string
  | JArr "json list"
  | JObj "(string \<times> json) list"

text \<open>A run-time value read from a property: \<open>None\<close> is JavaScript's \<open>undefined\<close>.\<close>

type_synonym js_value = "json option"

record CardData =
  url :: string
  domain :: string
  title :: js_value
  description :: js_value
  screenshotUrl :: string
  backupScreenshotUrl :: "string option"
  faviconUrl :: string
  qrCodeDataUrl :: string
  timestamp :: string

datatype Step = idle | fetching_metadata | generating_qr | completed | error

record GenerationStatus =
  step :: Step
  message :: "string option"

section \<open>SmartCard: the screenshot fallback state (src/unnamed/part_000)\<close>

text \<open>The four \<open>useState\<close> cells of the component.\<close>

record SmartCardState =
  imageError :: bool
  faviconError :: bool
  imageLoading :: bool
  currentScreenshotUrl :: string

text \<open>Initial values of the cells, before any record is shown.\<close>

definition initialSmartCardState :: SmartCardState where
  "initialSmartCardState =
     \<lparr>imageError = False, faviconError = False, imageLoading = True, currentScreenshotUrl = ''''\<rparr>"

text \<open>The effect that runs when \<open>data\<close> changes: it does nothing for \<open>null\<close>.\<close>

definition resetOnData :: "CardData option \<Rightarrow> SmartCardState \<Rightarrow> SmartCardState" where
  "resetOnData data s =
     (case data of
        None \<Rightarrow> s
      | Some d \<Rightarrow>
          s\<lparr>imageError := False, faviconError := False, imageLoading := True,
            currentScreenshotUrl := screenshotUrl d\<rparr>)"

text \<open>
  Truthiness of an optional string property: \<open>undefined\<close> and the empty string are falsy.
\<close>

definition truthy :: "string option \<Rightarrow> bool" where
  "truthy v = (case v of None \<Rightarrow> False | Some s \<Rightarrow> s \<noteq> [])"

text \<open>\<open>handleScreenshotError\<close>, the \<open>onError\<close> handler of the screenshot image.\<close>

definition handleScreenshotError :: "CardData \<Rightarrow> SmartCardState \<Rightarrow> SmartCardState" where
  "handleScreenshotError data s =
     (if truthy (backupScreenshotUrl data) \<and> currentScreenshotUrl s = screenshotUrl data
      then s\<lparr>currentScreenshotUrl := the (backupScreenshotUrl data)\<rparr>
      else s\<lparr>imageLoading := False, imageError := True\<rparr>)"

text \<open>The \<open>onLoad\<close> handler of the screenshot image.\<close>

definition handleScreenshotLoad :: "SmartCardState \<Rightarrow> SmartCardState" where
  "handleScreenshotLoad s = s\<lparr>imageLoading := False\<rparr>"

text \<open>The image element fires load and error events; a run of them drives the state.\<close>

datatype ImageEvent = LoadOk | LoadFailed

fun imageEvent :: "CardData \<Rightarrow> SmartCardState \<Rightarrow> ImageEvent \<Rightarrow> SmartCardState" where
  "imageEvent data s LoadOk = handleScreenshotLoad s"
| "imageEvent data s LoadFailed = handleScreenshotError data s"

definition runImageEvents :: "CardData \<Rightarrow> SmartCardState \<Rightarrow> ImageEvent list \<Rightarrow> SmartCardState" where
  "runImageEvents data s evs = foldl (imageEvent data) s evs"

text \<open>The three situations of section 4.6, read off the state cells.\<close>

definition pending :: "SmartCardState \<Rightarrow> bool" where
  "pending s = (imageLoading s \<and> \<not> imageError s)"

definition unavailable :: "SmartCardState \<Rightarrow> bool" where
  "unavailable s = imageError s"

section \<open>Strings as the platform treats them\<close>

definition lower_ascii :: "char \<Rightarrow> char" where
  "lower_ascii c =
     (if 65 \<le> (of_char c :: nat) \<and> (of_char c :: nat) \<le> 90 then char_of ((of_char c :: nat) + 32) else c)"

text \<open>
  \<open>String.prototype.trim\<close> removes the characters of WhiteSpace and LineTerminator from both
  ends. On UTF-8 bytes these are six single bytes, one two-byte sequence (U+00A0) and the
  three-byte sequences of U+1680, U+2000 to U+200A, U+2028, U+2029, U+202F, U+205F, U+3000
  and U+FEFF.
\<close>

definition ws1 :: "char \<Rightarrow> bool" where
  "ws1 a = ((of_char a :: nat) \<in> {9, 10, 11, 12, 13, 32})"

definition ws2 :: "char \<Rightarrow> char \<Rightarrow> bool" where
  "ws2 a b = ((of_char a :: nat) = 194 \<and> (of_char b :: nat) = 160)"

definition ws3 :: "char \<Rightarrow> char \<Rightarrow> char \<Rightarrow> bool" where
  "ws3 a b c =
     (let x = (of_char a :: nat); y = (of_char b :: nat); z = (of_char c :: nat) in
        (x = 225 \<and> y = 154 \<and> z = 128) \<or>
        (x = 226 \<and> y = 128 \<and> (128 \<le> z \<and> z \<le> 138 \<or> z = 168 \<or> z = 169 \<or> z = 175)) \<or>
        (x = 226 \<and> y = 129 \<and> z = 159) \<or>
        (x = 227 \<and> y = 128 \<and> z = 128) \<or>
        (x = 239 \<and> y = 187 \<and> z = 191))"

fun stripLeading ::
  "(char \<Rightarrow> bool) \<Rightarrow> (char \<Rightarrow> char \<Rightarrow> bool) \<Rightarrow> (char \<Rightarrow> char \<Rightarrow> char \<Rightarrow> bool) \<Rightarrow> string \<Rightarrow> string"
where
  "stripLeading p1 p2 p3 (a # b # c # s) =
     (if p1 a then stripLeading p1 p2 p3 (b # c # s)
      else if p2 a b then stripLeading p1 p2 p3 (c # s)
      else if p3 a b c then stripLeading p1 p2 p3 s
      else a # b # c # s)"
| "stripLeading p1 p2 p3 [a, b] =
     (if p1 a then stripLeading p1 p2 p3 [b] else if p2 a b then [] else [a, b])"
| "stripLeading p1 p2 p3 [a] = (if p1 a then [] else [a])"
| "stripLeading p1 p2 p3 [] = []"

definition trimStart :: "string \<Rightarrow> string" where
  "trimStart s = stripLeading ws1 ws2 ws3 s"

definition trimEnd :: "string \<Rightarrow> string" where
  "trimEnd s = rev (stripLeading ws1 (\<lambda>a b. ws2 b a) (\<lambda>a b c. ws3 c b a) (rev s))"

definition trim :: "string \<Rightarrow> string" where
  "trim s = trimEnd (trimStart s)"

text \<open>\<open>s.replace(pat, rep)\<close> with a string pattern: only the first occurrence is replaced.\<close>

fun replaceFirst :: "string \<Rightarrow> string \<Rightarrow> string \<Rightarrow> string" where
  "replaceFirst pat rep [] = (if pat = [] then rep else [])"
| "replaceFirst pat rep (c # cs) =
     (if prefix pat (c # cs) then rep @ drop (length pat) (c # cs)
      else c # replaceFirst pat rep cs)"

text \<open>
  \<open>s.replace(/pat/g, rep)\<close> for a literal, non-empty pattern: every occurrence, found from
  left to right without overlap, is replaced.
\<close>

function replaceAll :: "string \<Rightarrow> string \<Rightarrow> string \<Rightarrow> string" where
  "replaceAll pat rep s =
     (if s = [] \<or> pat = [] then s
      else if prefix pat s then rep @ replaceAll pat rep (drop (length pat) s)
      else hd s # replaceAll pat rep (tl s))"
  by pat_completeness auto
termination
  by (relation "measure (\<lambda>(pat, rep, s). length s)") auto

declare replaceAll.simps [simp del]

text \<open>\<open>s.includes(sub)\<close> and \<open>s.startsWith(p)\<close>.\<close>

definition includesStr :: "string \<Rightarrow> string \<Rightarrow> bool" where
  "includesStr s sub = sublist sub s"

definition startsWith :: "string \<Rightarrow> string \<Rightarrow> bool" where
  "startsWith s p = prefix p s"

text \<open>The test \<open>/^https?:\/\//i\<close>.\<close>

definition hasHttpScheme :: "string \<Rightarrow> bool" where
  "hasHttpScheme s =
     (map lower_ascii (take 7 s) = ''http://'' \<or> map lower_ascii (take 8 s) = ''https://'')"

text \<open>
  What \<open>encodeURIComponent\<close> returns for a well-formed text, on its UTF-8 bytes: letters,
  digits and \<open>- _ . ! ~ * ' ( )\<close> stay, every other byte becomes \<open>%XX\<close> with upper-case
  hexadecimal digits.
\<close>

definition unreserved :: "char \<Rightarrow> bool" where
  "unreserved c =
     (let n = (of_char c :: nat) in
        (48 \<le> n \<and> n \<le> 57) \<or> (65 \<le> n \<and> n \<le> 90) \<or> (97 \<le> n \<and> n \<le> 122) \<or>
        n \<in> {45, 95, 46, 33, 126, 42, 39, 40, 41})"

definition hexDigit :: "nat \<Rightarrow> char" where
  "hexDigit n = (if n < 10 then char_of (48 + n) else char_of (55 + n))"

definition encodeByte :: "char \<Rightarrow> string" where
  "encodeByte c =
     (if unreserved c then [c]
      else [CHR ''%'', hexDigit ((of_char c :: nat) div 16), hexDigit ((of_char c :: nat) mod 16)])"

definition percentEncode :: "string \<Rightarrow> string" where
  "percentEncode s = concat (map encodeByte s)"

text \<open>A number inside a template literal: its decimal digits, with a sign when negative.\<close>

fun showNat :: "nat \<Rightarrow> string" where
  "showNat n = (if n < 10 then [char_of (48 + n)] else showNat (n div 10) @ [char_of (48 + n mod 10)])"

declare showNat.simps [simp del]

definition showInt :: "int \<Rightarrow> string" where
  "showInt i = (if i < 0 then CHR ''-'' # showNat (nat (- i)) else showNat (nat i))"

section \<open>The outside world\<close>

text \<open>
  A thrown value. The first four are instances of \<open>Error\<close> and carry a message;
  \<open>ThrownObject\<close> is any other value whose \<open>typeof\<close> is \<open>object\<close> (an object or
  \<open>null\<close>), given by its \<open>JSON.stringify\<close> text; \<open>ThrownOther\<close> is any other thrown
  primitive.
\<close>

datatype js_error =
    TypeError string
  | SyntaxError string
  | URIError string
  | Error string
  | ThrownObject string
  | ThrownOther

text \<open>\<open>try { body } catch (e) { handler(e) }\<close> on results.\<close>

definition tryCatch :: "js_error + 'a \<Rightarrow> (js_error \<Rightarrow> js_error + 'a) \<Rightarrow> js_error + 'a" where
  "tryCatch body handler = (case body of Inl e \<Rightarrow> handler e | Inr v \<Rightarrow> Inr v)"

text \<open>
  \<open>encodeURIComponent\<close> on a string that comes from the user: it throws \<open>URIError\<close> when
  the string holds a lone surrogate, and otherwise returns the encoding of the text.
\<close>

definition encodeURIComponent :: "js_string \<Rightarrow> js_error + string" where
  "encodeURIComponent s =
     (if loneSurrogate s then Inl (URIError ''URI malformed'') else Inr (percentEncode (js_text s)))"

record Blob =
  blob_bytes :: string
  blob_type :: string

definition blob_size :: "Blob \<Rightarrow> nat" where
  "blob_size b = length (blob_bytes b)"

datatype BlobOutcome = BlobRejects js_error | BlobOk Blob

text \<open>What \<open>await fetch(u)\<close> gives: a rejection, or a response with its \<open>ok\<close> flag and body.\<close>

datatype FetchOutcome = FetchRejects js_error | Response bool BlobOutcome

text \<open>What \<open>ai.models.generateContent\<close> gives: a rejection, or a response with its \<open>text\<close>.\<close>

datatype GeminiOutcome = GenerateRejects js_error | GenerateResponse "string option"

datatype Format = png | svg

datatype OptionValue = OBool bool | ONum rat | OStr string | ONull

type_synonym Options = "string \<rightharpoonup> OptionValue"

text \<open>
  The platform and the remote services, as this program sees them. \<open>Date_now k\<close> is the
  value of the \<open>k\<close>-th reading of the clock; \<open>URL_hostname u\<close> is \<open>new URL(u).hostname\<close>,
  \<open>None\<close> when the constructor throws; \<open>JSON_parse t\<close> is \<open>None\<close> when \<open>JSON.parse\<close>
  throws, and otherwise the parsed value, an object listing each of its properties once;
  \<open>generateContent\<close> answers the prompt built for a URL; \<open>readAsDataURL\<close> is the
  \<open>result\<close> of the reader at \<open>loadend\<close>, \<open>None\<close> for \<open>null\<close>; \<open>QRCode_toDataURL\<close>
  is called with fixed options; \<open>htmlToImage k\<close> is the outcome of the \<open>k\<close>-th capture
  (\<open>toPng\<close> or \<open>toSvg\<close> of the card node) for the format and options passed.
\<close>

record Env =
  Date_now :: "nat \<Rightarrow> int"
  URL_hostname :: "string \<Rightarrow> string option"
  JSON_parse :: "string \<Rightarrow> json option"
  generateContent :: "string \<Rightarrow> GeminiOutcome"
  fetch :: "string \<Rightarrow> FetchOutcome"
  readAsDataURL :: "Blob \<Rightarrow> string option"
  QRCode_toDataURL :: "string \<Rightarrow> js_error + string"
  toLocaleDateString :: string
  htmlToImage :: "nat \<Rightarrow> Format \<Rightarrow> Options \<Rightarrow> js_error + string"

text \<open>What the program has done to the world so far.\<close>

record World =
  clock_reads :: nat
  requests :: "string list"
  captures :: "(Format \<times> Options) list"

section \<open>Application state (src/App.tsx)\<close>

datatype Theme = Light | Dark

datatype WebsiteTheme = light | dark

fun themeText :: "Theme \<Rightarrow> string" where
  "themeText Light = ''light''"
| "themeText Dark = ''dark''"

fun websiteThemeText :: "WebsiteTheme \<Rightarrow> string" where
  "websiteThemeText light = ''light''"
| "websiteThemeText dark = ''dark''"

record Viewport =
  vp_id :: string
  vp_label :: string
  vp_width :: nat
  vp_height :: nat

definition VIEWPORT_OPTIONS :: "Viewport list" where
  "VIEWPORT_OPTIONS =
     [\<lparr>vp_id = ''desktop'', vp_label = ''Desktop'', vp_width = 1280, vp_height = 800\<rparr>,
      \<lparr>vp_id = ''mobile'', vp_label = ''Mobile'', vp_width = 375, vp_height = 812\<rparr>,
      \<lparr>vp_id = ''tablet'', vp_label = ''Tablet'', vp_width = 768, vp_height = 1024\<rparr>]"

text \<open>
  The state cells of \<open>App\<close>. The cell of the input field holds what the user typed:
  \<open>urlInput\<close> is its text and \<open>urlInputLoneSurrogate\<close> tells whether it holds a lone
  surrogate. \<open>cardRef\<close> tells whether \<open>cardRef.current\<close> is set; \<open>alerts\<close> and \<open>downloads\<close>
  record the calls of \<open>alert\<close> and the links clicked by \<open>triggerDownload\<close> (file name and
  address).
\<close>

record AppState =
  urlInput :: string
  urlInputLoneSurrogate :: bool
  cardData :: "CardData option"
  status :: GenerationStatus
  theme :: Theme
  websiteTheme :: WebsiteTheme
  showSocialPreview :: bool
  socialImage :: string
  selectedViewport :: Viewport
  cardRef :: bool
  alerts :: "string list"
  downloads :: "(string \<times> string) list"

definition initialAppState :: AppState where
  "initialAppState =
     \<lparr>urlInput = [], urlInputLoneSurrogate = False, cardData = None,
      status = \<lparr>step = idle, message = None\<rparr>,
      theme = Light, websiteTheme = light, showSocialPreview = False, socialImage = [],
      selectedViewport = hd VIEWPORT_OPTIONS, cardRef = False, alerts = [], downloads = []\<rparr>"

section \<open>Proxy Resolver\<close>

text \<open>
  Every address passed to \<open>getProxiedUrl\<close> is one the program has assembled from literals,
  encoded text, host names and numbers, so it is a \<open>string\<close>, on which
  \<open>encodeURIComponent\<close> returns \<open>percentEncode\<close>.
\<close>

definition getProxiedUrl :: "Env \<Rightarrow> string \<Rightarrow> World \<Rightarrow> string \<times> World" where
  "getProxiedUrl env u w =
     (''https://wsrv.nl/?url='' @ percentEncode u @ ''&output=png&n=''
        @ showInt (Date_now env (clock_reads w)),
      w\<lparr>clock_reads := Suc (clock_reads w)\<rparr>)"

section \<open>Favicon Acquirer\<close>

text \<open>
  The list of services. It is built before the loop and outside its \<open>try\<close>, from the
  address the user typed: when \<open>encodeURIComponent\<close> throws, no list is built.
\<close>

definition faviconServices :: "string \<Rightarrow> js_string \<Rightarrow> js_error + string list" where
  "faviconServices dname originalUrl =
     (case encodeURIComponent originalUrl of
        Inl e \<Rightarrow> Inl e
      | Inr encoded \<Rightarrow>
          Inr [''https://t2.gstatic.com/faviconV2?client=SOCIAL&type=FAVICON&fallback_opts=TYPE,SIZE,URL&url=''
                 @ encoded @ ''&size=128'',
               ''https://www.google.com/s2/favicons?domain='' @ dname @ ''&sz=128'',
               ''https://icons.duckduckgo.com/ip3/'' @ dname @ ''.ico''])"

text \<open>The promise around the reader: it resolves with the data URI or with the empty string.\<close>

definition readerResult :: "string option \<Rightarrow> string" where
  "readerResult r =
     (case r of
        None \<Rightarrow> []
      | Some result \<Rightarrow> if result \<noteq> [] \<and> startsWith result ''data:image'' then result else [])"

text \<open>How one round of the loop body ends when it does not throw.\<close>

datatype 'a LoopStep = Continue | Return 'a

text \<open>The body of the \<open>try\<close> block for one service.\<close>

definition faviconAttempt :: "Env \<Rightarrow> string \<Rightarrow> World \<Rightarrow> (js_error + string LoopStep) \<times> World" where
  "faviconAttempt env serviceUrl w =
     (case getProxiedUrl env serviceUrl w of
        (proxiedUrl, w1) \<Rightarrow>
          let w2 = w1\<lparr>requests := requests w1 @ [proxiedUrl]\<rparr> in
          (case fetch env proxiedUrl of
             FetchRejects e \<Rightarrow> (Inl e, w2)
           | Response ok body \<Rightarrow>
               if \<not> ok then (Inr Continue, w2)
               else (case body of
                       BlobRejects e \<Rightarrow> (Inl e, w2)
                     | BlobOk blob \<Rightarrow>
                         if blob_size blob < 100 \<or> includesStr (blob_type blob) ''text''
                            \<or> includesStr (blob_type blob) ''html''
                         then (Inr Continue, w2)
                         else (Inr (Return (readerResult (readAsDataURL env blob))), w2))))"

text \<open>The \<open>for\<close> loop with its \<open>catch\<close>, and the final return of the empty string.\<close>

fun faviconLoop :: "Env \<Rightarrow> string list \<Rightarrow> World \<Rightarrow> (js_error + string) \<times> World" where
  "faviconLoop env [] w = (Inr [], w)"
| "faviconLoop env (serviceUrl # rest) w =
     (case faviconAttempt env serviceUrl w of
        (Inl e, w') \<Rightarrow> faviconLoop env rest w'
      | (Inr Continue, w') \<Rightarrow> faviconLoop env rest w'
      | (Inr (Return r), w') \<Rightarrow> (Inr r, w'))"

text \<open>
  The whole function: an exception while the list is built is not caught and rejects the
  promise that the caller awaits.
\<close>

definition fetchFaviconBase64 ::
  "Env \<Rightarrow> string \<Rightarrow> js_string \<Rightarrow> World \<Rightarrow> (js_error + string) \<times> World"
where
  "fetchFaviconBase64 env dname originalUrl w =
     (case faviconServices dname originalUrl of
        Inl e \<Rightarrow> (Inl e, w)
      | Inr services \<Rightarrow> faviconLoop env services w)"

section \<open>Metadata Acquirer (services/gemini, in src/components/ui/Button.tsx)\<close>

definition cleanText :: "string \<Rightarrow> string" where
  "cleanText t = trim (replaceAll ''```'' [] (replaceAll ''```json'' [] t))"

text \<open>The outer \<open>try\<close> block.\<close>

definition metadataRequest :: "Env \<Rightarrow> string \<Rightarrow> js_error + json" where
  "metadataRequest env u =
     (case generateContent env u of
        GenerateRejects e \<Rightarrow> Inl e
      | GenerateResponse text \<Rightarrow>
          if \<not> truthy text then Inl (Error ''Empty response from Gemini'')
          else (case JSON_parse env (cleanText (the text)) of
                  None \<Rightarrow> Inl (SyntaxError ''JSON.parse'')
                | Some j \<Rightarrow> Inr j))"

text \<open>The \<open>try\<close> block inside the handler, and the value of its own handler.\<close>

definition hostnameFallback :: "Env \<Rightarrow> string \<Rightarrow> js_error + json" where
  "hostnameFallback env u =
     (case URL_hostname env u of
        None \<Rightarrow> Inl (TypeError ''Invalid URL'')
      | Some h \<Rightarrow>
          Inr (JObj [(''title'', JStr h), (''description'', JStr (''Link to '' @ u)),
                     (''author'', JStr []), (''publishedTime'', JStr []),
                     (''keywords'', JArr [])]))"

definition websiteFallback :: "string \<Rightarrow> json" where
  "websiteFallback u =
     JObj [(''title'', JStr ''Website''), (''description'', JStr u),
           (''author'', JStr []), (''publishedTime'', JStr []), (''keywords'', JArr [])]"

definition fetchMetadataWithGemini :: "Env \<Rightarrow> string \<Rightarrow> js_error + json" where
  "fetchMetadataWithGemini env u =
     tryCatch (metadataRequest env u)
       (\<lambda>error. tryCatch (hostnameFallback env u) (\<lambda>_. Inr (websiteFallback u)))"

section \<open>Image Export Pipeline\<close>

text \<open>
  One call of \<open>htmlToImage.toPng\<close> or \<open>htmlToImage.toSvg\<close> on the card node: the world
  records the call, the platform decides its outcome.
\<close>

definition capture :: "Env \<Rightarrow> Format \<Rightarrow> Options \<Rightarrow> World \<Rightarrow> (js_error + string) \<times> World" where
  "capture env format config w =
     (htmlToImage env (length (captures w)) format config,
      w\<lparr>captures := captures w @ [(format, config)]\<rparr>)"

definition generateImage :: "Env \<Rightarrow> Options \<Rightarrow> Format \<Rightarrow> World \<Rightarrow> (js_error + string) \<times> World" where
  "generateImage env options format w =
     (let config = options(''useCORS'' \<mapsto> OBool True, ''preferredFontFormat'' \<mapsto> OStr ''woff2'') in
      case capture env format config w of
        (Inr dataUrl, w1) \<Rightarrow> (Inr dataUrl, w1)
      | (Inl err, w1) \<Rightarrow>
          (let fallbackConfig = config(''skipFonts'' \<mapsto> OBool True) in
           case capture env format fallbackConfig w1 of
             (Inr dataUrl, w2) \<Rightarrow> (Inr dataUrl, w2)
           | (Inl err2, w2) \<Rightarrow> (Inl err2, w2)))"

definition prewarmOptions :: Options where
  "prewarmOptions = [''cacheBust'' \<mapsto> OBool True, ''skipFonts'' \<mapsto> OBool True]"

definition downloadPngOptions :: Options where
  "downloadPngOptions =
     [''quality'' \<mapsto> ONum 1, ''pixelRatio'' \<mapsto> ONum 3, ''cacheBust'' \<mapsto> OBool True,
      ''backgroundColor'' \<mapsto> ONull]"

definition downloadSvgOptions :: Options where
  "downloadSvgOptions = [''cacheBust'' \<mapsto> OBool True, ''backgroundColor'' \<mapsto> ONull]"

definition socialPreviewOptions :: Options where
  "socialPreviewOptions =
     [''quality'' \<mapsto> ONum (9 / 10), ''pixelRatio'' \<mapsto> ONum (3 / 2), ''cacheBust'' \<mapsto> OBool True,
      ''backgroundColor'' \<mapsto> ONull]"

definition triggerDownload :: "string \<Rightarrow> string \<Rightarrow> AppState \<Rightarrow> AppState" where
  "triggerDownload dataUrl extension app =
     (case cardData app of
        None \<Rightarrow> app
      | Some c \<Rightarrow>
          app\<lparr>downloads := downloads app @
                [(''smart-card-'' @ domain c @ ''-'' @ themeText (theme app) @ ''.'' @ extension,
                  dataUrl)]\<rparr>)"

fun errorMessage :: "js_error \<Rightarrow> string" where
  "errorMessage (TypeError m) = m"
| "errorMessage (SyntaxError m) = m"
| "errorMessage (URIError m) = m"
| "errorMessage (Error m) = m"
| "errorMessage (ThrownObject t) = t"
| "errorMessage ThrownOther = ''Unknown error occurred''"

definition handleDownloadError :: "js_error \<Rightarrow> AppState \<Rightarrow> AppState" where
  "handleDownloadError err app =
     app\<lparr>alerts := alerts app @
           [''Could not generate image. Error: '' @ errorMessage err @ ''. '' @ [CHR 0x0A, CHR 0x0A]
              @ ''This is often due to browser security blocking the image download.'']\<rparr>"

definition handleDownloadPng :: "Env \<Rightarrow> AppState \<times> World \<Rightarrow> AppState \<times> World" where
  "handleDownloadPng env aw =
     (case aw of
        (app, w) \<Rightarrow>
          if \<not> cardRef app \<or> cardData app = None then (app, w)
          else (case capture env png prewarmOptions w of
                  (prewarm, w0) \<Rightarrow>
                    (case generateImage env downloadPngOptions png w0 of
                       (Inr dataUrl, w1) \<Rightarrow> (triggerDownload dataUrl ''png'' app, w1)
                     | (Inl err, w1) \<Rightarrow> (handleDownloadError err app, w1))))"

definition handleDownloadSvg :: "Env \<Rightarrow> AppState \<times> World \<Rightarrow> AppState \<times> World" where
  "handleDownloadSvg env aw =
     (case aw of
        (app, w) \<Rightarrow>
          if \<not> cardRef app \<or> cardData app = None then (app, w)
          else (case generateImage env downloadSvgOptions svg w of
                  (Inr dataUrl, w1) \<Rightarrow> (triggerDownload dataUrl ''svg'' app, w1)
                | (Inl err, w1) \<Rightarrow> (handleDownloadError err app, w1)))"

definition handleSocialPreview :: "Env \<Rightarrow> AppState \<times> World \<Rightarrow> AppState \<times> World" where
  "handleSocialPreview env aw =
     (case aw of
        (app, w) \<Rightarrow>
          if \<not> cardRef app \<or> cardData app = None then (app, w)
          else (case generateImage env socialPreviewOptions png w of
                  (Inr dataUrl, w1) \<Rightarrow> (app\<lparr>socialImage := dataUrl, showSocialPreview := True\<rparr>, w1)
                | (Inl err, w1) \<Rightarrow>
                    (app\<lparr>alerts := alerts app @ [''Could not generate social preview.'']\<rparr>, w1)))"

section \<open>Card Assembler\<close>

text \<open>The display domain: \<open>urlObj.hostname.replace('www.', '')\<close>.\<close>

definition displayDomain :: "string \<Rightarrow> string" where
  "displayDomain hostname = replaceFirst ''www.'' [] hostname"

definition normalizeInput :: "string \<Rightarrow> string" where
  "normalizeInput input =
     (if hasHttpScheme (trim input) then trim input else ''https://'' @ trim input)"

definition microlinkUrl :: "js_string \<Rightarrow> Viewport \<Rightarrow> WebsiteTheme \<Rightarrow> js_error + string" where
  "microlinkUrl processedUrl vp wt =
     (case encodeURIComponent processedUrl of
        Inl e \<Rightarrow> Inl e
      | Inr encoded \<Rightarrow>
          Inr (''https://api.microlink.io/?url='' @ encoded
                 @ ''&screenshot=true&meta=false&embed=screenshot.url&screenshot.type=png''
                 @ ''&screenshot.deviceScaleFactor=2&waitFor=2s&screenshot.fullPage=false&screenshot.bg=true''
                 @ ''&viewport.width='' @ showNat (vp_width vp)
                 @ ''&viewport.height='' @ showNat (vp_height vp)
                 @ ''&colorScheme='' @ websiteThemeText wt))"

definition mshotsUrl :: "js_string \<Rightarrow> Viewport \<Rightarrow> js_error + string" where
  "mshotsUrl processedUrl vp =
     (case encodeURIComponent processedUrl of
        Inl e \<Rightarrow> Inl e
      | Inr encoded \<Rightarrow>
          Inr (''https://s0.wp.com/mshots/v1/'' @ encoded
                 @ ''?w='' @ showNat (vp_width vp) @ ''&h='' @ showNat (vp_height vp)))"

text \<open>
  Reading \<open>metadata.title\<close> or \<open>metadata.description\<close> from what \<open>JSON.parse\<close> returned:
  \<open>null\<close> has no properties and the read throws; an object gives the property or
  \<open>undefined\<close>; numbers, booleans, strings and arrays have neither property.
\<close>

fun metadataField :: "json \<Rightarrow> string \<Rightarrow> js_error + js_value" where
  "metadataField JNull k = Inl (TypeError ''Cannot read properties of null'')"
| "metadataField (JObj kvs) k = Inr (map_of kvs k)"
| "metadataField j k = Inr None"

text \<open>
  \<open>Promise.all\<close> of three settled promises: the values if all fulfilled, otherwise a
  rejection (when several reject, the one that rejected first in time; the model takes the
  first in the array).
\<close>

definition promiseAll3 ::
  "js_error + 'a \<Rightarrow> js_error + 'b \<Rightarrow> js_error + 'c \<Rightarrow> js_error + ('a \<times> 'b \<times> 'c)"
where
  "promiseAll3 a b c =
     (case a of
        Inl e \<Rightarrow> Inl e
      | Inr x \<Rightarrow>
          (case b of
             Inl e \<Rightarrow> Inl e
           | Inr y \<Rightarrow> (case c of Inl e \<Rightarrow> Inl e | Inr z \<Rightarrow> Inr (x, y, z))))"

text \<open>
  The body of the \<open>try\<close> block of \<open>handleGenerate\<close>, up to the new record. The processed
  address is the text \<open>processedUrl\<close> together with the lone-surrogate mark of the input
  cell: trimming and prefixing the scheme neither add nor remove a lone surrogate. The URL
  constructor, the metadata service and the QR encoder work on the text.
\<close>

definition generateCard :: "Env \<Rightarrow> AppState \<Rightarrow> string \<Rightarrow> World \<Rightarrow> (js_error + CardData) \<times> World" where
  "generateCard env app processedUrl w =
     (case URL_hostname env processedUrl of
        None \<Rightarrow> (Inl (TypeError ''Invalid URL''), w)
      | Some hostname \<Rightarrow>
          (case fetchFaviconBase64 env (displayDomain hostname)
                  (JsString processedUrl (urlInputLoneSurrogate app)) w of
             (faviconP, w1) \<Rightarrow>
               (case promiseAll3 (fetchMetadataWithGemini env processedUrl)
                       (QRCode_toDataURL env processedUrl) faviconP of
                  Inl e \<Rightarrow> (Inl e, w1)
                | Inr (metadata, qrDataUrl, faviconBase64) \<Rightarrow>
                    (case microlinkUrl (JsString processedUrl (urlInputLoneSurrogate app))
                            (selectedViewport app) (websiteTheme app) of
                       Inl e \<Rightarrow> (Inl e, w1)
                     | Inr microlink \<Rightarrow>
                         (case getProxiedUrl env microlink w1 of
                            (primaryScreenshotUrl, w2) \<Rightarrow>
                              (case mshotsUrl (JsString processedUrl (urlInputLoneSurrogate app))
                                      (selectedViewport app) of
                                 Inl e \<Rightarrow> (Inl e, w2)
                               | Inr mshots \<Rightarrow>
                                   (case getProxiedUrl env mshots w2 of
                                      (backupUrl, w3) \<Rightarrow>
                                        (case metadataField metadata ''title'' of
                                           Inl e \<Rightarrow> (Inl e, w3)
                                         | Inr t \<Rightarrow>
                                             (case metadataField metadata ''description'' of
                                                Inl e \<Rightarrow> (Inl e, w3)
                                              | Inr dsc \<Rightarrow>
                                                  (Inr \<lparr>url = processedUrl,
                                                        domain = displayDomain hostname,
                                                        title = t,
                                                        description = dsc,
                                                        screenshotUrl = primaryScreenshotUrl,
                                                        backupScreenshotUrl = Some backupUrl,
                                                        faviconUrl = faviconBase64,
                                                        qrCodeDataUrl = qrDataUrl,
                                                        timestamp = toLocaleDateString env\<rparr>,
                                                   w3))))))))))"

definition handleGenerate :: "Env \<Rightarrow> AppState \<times> World \<Rightarrow> AppState \<times> World" where
  "handleGenerate env aw =
     (case aw of
        (app, w) \<Rightarrow>
          if trim (urlInput app) = [] then (app, w)
          else
            (let app1 = app\<lparr>status := \<lparr>step = fetching_metadata,
                                        message = Some ''Analyzing URL with Gemini...''\<rparr>\<rparr> in
             case generateCard env app1 (normalizeInput (urlInput app)) w of
               (Inr newCard, w') \<Rightarrow>
                 (app1\<lparr>cardData := Some newCard, status := \<lparr>step = completed, message = None\<rparr>\<rparr>, w')
             | (Inl e, w') \<Rightarrow>
                 (app1\<lparr>status := \<lparr>step = error,
                                  message = Some ''Failed to generate card. Please try again.''\<rparr>\<rparr>,
                  w')))"

section \<open>A model of the URL constructor, and sample worlds\<close>

text \<open>
  \<open>new URL(s).hostname\<close> for the plain addresses the examples below use: scheme
  \<open>http://\<close> or \<open>https://\<close> in any case, then a host made of letters, digits, \<open>-\<close> and \<open>.\<close>
  whose last label starts with a letter and which has no \<open>xn--\<close> label, then the end or
  a path, query or fragment. The host is answered in lower case. Every other string (user
  info, port, address literal, escapes, other schemes) is outside this model, which answers
  \<open>None\<close> there; the general statements below do not use it, they hold for every
  \<open>URL_hostname\<close>.
\<close>

definition isLetter :: "char \<Rightarrow> bool" where
  "isLetter c = (let n = (of_char c :: nat) in (65 \<le> n \<and> n \<le> 90) \<or> (97 \<le> n \<and> n \<le> 122))"

definition hostChar :: "char \<Rightarrow> bool" where
  "hostChar c =
     (let n = (of_char c :: nat) in isLetter c \<or> (48 \<le> n \<and> n \<le> 57) \<or> n = 45 \<or> n = 46)"

definition url_hostname :: "string \<Rightarrow> string option" where
  "url_hostname s =
     (if \<not> hasHttpScheme s then None
      else
        (let rest = drop (if map lower_ascii (take 7 s) = ''http://'' then 7 else 8) s;
             host = takeWhile (\<lambda>c. c \<notin> set ''/?#'') rest;
             lastLabel = rev (takeWhile (\<lambda>c. c \<noteq> CHR ''.'') (rev host))
         in if host \<noteq> [] \<and> list_all hostChar host \<and> lastLabel \<noteq> [] \<and> isLetter (hd lastLabel)
               \<and> \<not> sublist ''xn--'' (map lower_ascii host)
            then Some (map lower_ascii host) else None))"

text \<open>
  A world in which every remote service is down and the renderer works: the clock stands
  still, the metadata service rejects, every fetch rejects, the QR encoder answers.
\<close>

definition offlineEnv :: Env where
  "offlineEnv =
     \<lparr>Date_now = (\<lambda>k. 1700000000000),
      URL_hostname = url_hostname,
      JSON_parse = (\<lambda>t. None),
      generateContent = (\<lambda>u. GenerateRejects (Error ''network'')),
      fetch = (\<lambda>u. FetchRejects (TypeError ''Failed to fetch'')),
      readAsDataURL = (\<lambda>b. None),
      QRCode_toDataURL = (\<lambda>t. Inr ''data:image/png;base64,QR''),
      toLocaleDateString = ''Nov 3, 2026'',
      htmlToImage = (\<lambda>k f c. Inr ''data:image/png;base64,CARD'')\<rparr>"

definition freshWorld :: World where
  "freshWorld = \<lparr>clock_reads = 0, requests = [], captures = []\<rparr>"

definition sampleCard :: CardData where
  "sampleCard =
     \<lparr>url = ''https://example.com'', domain = ''example.com'',
      title = Some (JStr ''Example''), description = Some (JStr ''An example''),
      screenshotUrl = ''primary.png'', backupScreenshotUrl = Some ''backup.png'',
      faviconUrl = [], qrCodeDataUrl = ''data:image/png;base64,QR'', timestamp = ''Nov 3, 2026''\<rparr>"

text \<open>
  A renderer whose every capture fails, the retry without fonts with another error than the
  first attempt; and one that always succeeds and stamps each image with the number of the
  capture that produced it.
\<close>

definition failingRendererEnv :: Env where
  "failingRendererEnv =
     offlineEnv\<lparr>htmlToImage :=
       (\<lambda>k f c. if c ''skipFonts'' = Some (OBool True) then Inl (Error ''tainted canvas'')
                 else Inl (Error ''font fetch failed''))\<rparr>"

definition countingRendererEnv :: Env where
  "countingRendererEnv =
     offlineEnv\<lparr>htmlToImage := (\<lambda>k f c. Inr (''data:image/png;base64,CARD'' @ showNat k))\<rparr>"

text \<open>The application showing \<open>sampleCard\<close>, its node mounted.\<close>

definition readyApp :: AppState where
  "readyApp = initialAppState\<lparr>cardData := Some sampleCard, cardRef := True\<rparr>"

text \<open>The application with an address typed in, nothing generated yet.\<close>

definition typedApp :: AppState where
  "typedApp = initialAppState\<lparr>urlInput := ''https://www.example.com/path''\<rparr>"

text \<open>The record that \<open>handleGenerate\<close> publishes for \<open>typedApp\<close> in the offline world.\<close>

definition generatedCard :: CardData where
  "generatedCard =
     \<lparr>url = ''https://www.example.com/path'',
      domain = ''example.com'',
      title = Some (JStr ''www.example.com''),
      description = Some (JStr ''Link to https://www.example.com/path''),
      screenshotUrl =
        ''https://wsrv.nl/?url=https%3A%2F%2Fapi.microlink.io%2F%3Furl%3Dhttps%253A%252F%252Fwww.example.com%252Fpath%26screenshot%3Dtrue%26meta%3Dfalse%26embed%3Dscreenshot.url%26screenshot.type%3Dpng%26screenshot.deviceScaleFactor%3D2%26waitFor%3D2s%26screenshot.fullPage%3Dfalse%26screenshot.bg%3Dtrue%26viewport.width%3D1280%26viewport.height%3D800%26colorScheme%3Dlight&output=png&n=1700000000000'',
      backupScreenshotUrl =
        Some ''https://wsrv.nl/?url=https%3A%2F%2Fs0.wp.com%2Fmshots%2Fv1%2Fhttps%253A%252F%252Fwww.example.com%252Fpath%3Fw%3D1280%26h%3D800&output=png&n=1700000000000'',
      faviconUrl = [],
      qrCodeDataUrl = ''data:image/png;base64,QR'',
      timestamp = ''Nov 3, 2026''\<rparr>"

text \<open>The application showing \<open>sampleCard\<close>, with a new input that is not an address.\<close>

definition retypedApp :: AppState where
  "retypedApp = readyApp\<lparr>urlInput := ''exa mple''\<rparr>"

text \<open>
  A world whose metadata service answers with well-formed JSON of the wrong shape: an empty
  array.
\<close>

definition wrongShapeEnv :: Env where
  "wrongShapeEnv =
     offlineEnv\<lparr>generateContent := (\<lambda>u. GenerateResponse (Some ''```json [] ```'')),
                JSON_parse := (\<lambda>t. if t = ''[]'' then Some (JArr []) else None)\<rparr>"

text \<open>
  The address requested for the \<open>j\<close>-th service of a list when the loop gets that far: each
  round before it has read the clock once.
\<close>

definition proxiedAt :: "Env \<Rightarrow> string list \<Rightarrow> World \<Rightarrow> nat \<Rightarrow> string" where
  "proxiedAt env services w j =
     fst (getProxiedUrl env (services ! j) (w\<lparr>clock_reads := clock_reads w + j\<rparr>))"

text \<open>
  A candidate that errs or does not deliver an image: the fetch or the reading of the body
  rejects, the status is not a success, the body has fewer than 100 bytes, or the content
  type contains \<open>text\<close> or \<open>html\<close>.
\<close>

definition candidateRejected :: "FetchOutcome \<Rightarrow> bool" where
  "candidateRejected r =
     (case r of
        FetchRejects e \<Rightarrow> True
      | Response ok body \<Rightarrow>
          \<not> ok \<or>
          (case body of
             BlobRejects e \<Rightarrow> True
           | BlobOk blob \<Rightarrow>
               blob_size blob < 100 \<or> includesStr (blob_type blob) ''text''
               \<or> includesStr (blob_type blob) ''html''))"

text \<open>
  A candidate that passes the three checks with the body \<open>blob\<close>.
\<close>

definition candidateAccepted :: "FetchOutcome \<Rightarrow> Blob \<Rightarrow> bool" where
  "candidateAccepted r blob =
     (r = Response True (BlobOk blob) \<and> \<not> blob_size blob < 100 \<and>
      \<not> includesStr (blob_type blob) ''text'' \<and> \<not> includesStr (blob_type blob) ''html'')"


text \<open>
  The first service answers 404; the second delivers 120 bytes typed
  \<open>application/octet-stream\<close>, which the reader turns into a data URI of that type; the
  third would deliver a proper icon.
\<close>

definition octetStreamEnv :: Env where
  "octetStreamEnv =
     offlineEnv\<lparr>fetch :=
       (\<lambda>u. if sublist ''gstatic'' u
               then Response False (BlobOk \<lparr>blob_bytes = ''Not Found'', blob_type = ''text/plain''\<rparr>)
             else if sublist ''google'' u
               then Response True
                      (BlobOk \<lparr>blob_bytes = replicate 120 (CHR ''x''),
                               blob_type = ''application/octet-stream''\<rparr>)
             else Response True
                    (BlobOk \<lparr>blob_bytes = replicate 300 (CHR ''y''), blob_type = ''image/x-icon''\<rparr>)),
       readAsDataURL := (\<lambda>b. Some (''data:'' @ blob_type b @ '';base64,'' @ blob_bytes b))\<rparr>"

text \<open>
  The three favicon requests for \<open>example.com\<close> when the clock reads 1700000000000.
\<close>

definition sampleRequests :: "string list" where
  "sampleRequests =
     [''https://wsrv.nl/?url=https%3A%2F%2Ft2.gstatic.com%2FfaviconV2%3Fclient%3DSOCIAL%26type%3DFAVICON%26fallback_opts%3DTYPE%2CSIZE%2CURL%26url%3Dhttps%253A%252F%252Fexample.com%26size%3D128&output=png&n=1700000000000'',
      ''https://wsrv.nl/?url=https%3A%2F%2Fwww.google.com%2Fs2%2Ffavicons%3Fdomain%3Dexample.com%26sz%3D128&output=png&n=1700000000000'',
      ''https://wsrv.nl/?url=https%3A%2F%2Ficons.duckduckgo.com%2Fip3%2Fexample.com.ico&output=png&n=1700000000000'']"

text \<open>
  The address \<open>https://example.com\<close> as typed by a user, and the three services built for
  it and for the domain \<open>example.com\<close>.
\<close>

definition sampleAddress :: js_string where
  "sampleAddress = JsString ''https://example.com'' False"

definition sampleServices :: "string list" where
  "sampleServices =
     [''https://t2.gstatic.com/faviconV2?client=SOCIAL&type=FAVICON&fallback_opts=TYPE,SIZE,URL&url=https%3A%2F%2Fexample.com&size=128'',
      ''https://www.google.com/s2/favicons?domain=example.com&sz=128'',
      ''https://icons.duckduckgo.com/ip3/example.com.ico'']"

text \<open>
  An address with a lone surrogate in its path (read as U+FFFD, bytes EF BF BD, by the URL
  constructor, which accepts it), and the application with a card shown and that address
  typed in.
\<close>

definition surrogateAddress :: js_string where
  "surrogateAddress = JsString (''https://example.com/'' @ [CHR 0xEF, CHR 0xBF, CHR 0xBD]) True"

definition surrogateApp :: AppState where
  "surrogateApp =
     readyApp\<lparr>urlInput := js_text surrogateAddress, urlInputLoneSurrogate := True\<rparr>"

section \<open>Properties of the fallback state machine\<close>

lemma runImageEvents_Nil: "runImageEvents data s [] = s"
  by (simp add: runImageEvents_def)

lemma runImageEvents_snoc:
  "runImageEvents data s (evs @ [e]) = imageEvent data (runImageEvents data s evs) e"
  by (simp add: runImageEvents_def)

lemma reset_Some:
  "resetOnData (Some d) s =
     s\<lparr>imageError := False, faviconError := False, imageLoading := True,
       currentScreenshotUrl := screenshotUrl d\<rparr>"
  by (simp add: resetOnData_def)

lemma failures_snoc:
  "count_list (evs @ [e]) LoadFailed =
     count_list evs LoadFailed + (if e = LoadFailed then 1 else 0)"
  by (induction evs) simp_all

text \<open>
  With a backup present: before any failure the active source is the primary, after exactly
  one failure it is the backup, and in both situations the error flag is still clear.
\<close>

lemma fallback_invariant:
  assumes b: "truthy (backupScreenshotUrl d)"
  shows "(count_list evs LoadFailed = 0 \<longrightarrow>
            currentScreenshotUrl (runImageEvents d (resetOnData (Some d) s) evs) = screenshotUrl d \<and>
            \<not> imageError (runImageEvents d (resetOnData (Some d) s) evs)) \<and>
         (count_list evs LoadFailed = 1 \<longrightarrow>
            currentScreenshotUrl (runImageEvents d (resetOnData (Some d) s) evs)
              = the (backupScreenshotUrl d) \<and>
            \<not> imageError (runImageEvents d (resetOnData (Some d) s) evs))"
proof (induction evs rule: rev_induct)
  case Nil
  show ?case by (simp add: runImageEvents_Nil reset_Some)
next
  case (snoc e evs)
  show ?case
  proof (cases e)
    case LoadOk
    with snoc show ?thesis
      by (simp add: runImageEvents_snoc failures_snoc handleScreenshotLoad_def)
  next
    case LoadFailed
    with snoc b show ?thesis
      by (simp add: runImageEvents_snoc failures_snoc handleScreenshotError_def)
  qed
qed

lemma active_source_after:
  assumes b: "truthy (backupScreenshotUrl d)"
  shows "currentScreenshotUrl (runImageEvents d (resetOnData (Some d) s) evs) =
           (if LoadFailed \<in> set evs then the (backupScreenshotUrl d) else screenshotUrl d)"
proof (induction evs rule: rev_induct)
  case Nil
  show ?case by (simp add: runImageEvents_Nil reset_Some)
next
  case (snoc e evs)
  show ?case
  proof (cases e)
    case LoadOk
    with snoc show ?thesis
      by (simp add: runImageEvents_snoc handleScreenshotLoad_def)
  next
    case LoadFailed
    with snoc b show ?thesis
      by (simp add: runImageEvents_snoc handleScreenshotError_def)
  qed
qed

lemma unavailable_needs_two_failures:
  assumes b: "truthy (backupScreenshotUrl d)"
    and u: "unavailable (runImageEvents d (resetOnData (Some d) s) evs)"
  shows "2 \<le> count_list evs LoadFailed"
proof (rule ccontr)
  assume "\<not> 2 \<le> count_list evs LoadFailed"
  then have "count_list evs LoadFailed = 0 \<or> count_list evs LoadFailed = 1" by arith
  with fallback_invariant [OF b, of evs s] u show False
    by (auto simp: unavailable_def)
qed

text \<open>
  Claim C2. Starting from the state in which a new record \<open>d\<close> is presented:
  \<^item> if \<open>d\<close> has a backup reference, the first load failure makes the backup the active source
    and leaves the machine pending (loading flag set, error flag clear);
  \<^item> over any run of load and error events the active source is the primary before the first
    failure and the backup from the first failure on, so the switch happens once and is never
    undone;
  \<^item> the terminal Unavailable state is reached only after at least two failures, that is only
    when the backup has failed as well, and when the backup differs from the primary its
    failure does reach Unavailable;
  \<^item> if \<open>d\<close> has no backup reference, the first load failure leads directly to Unavailable.
\<close>

theorem screenshot_fallback_machine:
  fixes d :: CardData and s :: SmartCardState and evs :: "ImageEvent list"
  defines "s0 \<equiv> resetOnData (Some d) s"
  shows "(truthy (backupScreenshotUrl d) \<longrightarrow>
            currentScreenshotUrl (handleScreenshotError d s0) = the (backupScreenshotUrl d) \<and>
            pending (handleScreenshotError d s0) \<and>
            \<not> unavailable (handleScreenshotError d s0) \<and>
            currentScreenshotUrl (runImageEvents d s0 evs) =
              (if LoadFailed \<in> set evs then the (backupScreenshotUrl d) else screenshotUrl d) \<and>
            (unavailable (runImageEvents d s0 evs) \<longrightarrow> 2 \<le> count_list evs LoadFailed) \<and>
            (the (backupScreenshotUrl d) \<noteq> screenshotUrl d \<longrightarrow>
               unavailable (handleScreenshotError d (handleScreenshotError d s0)) \<and>
               currentScreenshotUrl (handleScreenshotError d (handleScreenshotError d s0))
                 = the (backupScreenshotUrl d))) \<and>
         (\<not> truthy (backupScreenshotUrl d) \<longrightarrow>
            unavailable (handleScreenshotError d s0) \<and>
            \<not> imageLoading (handleScreenshotError d s0) \<and>
            currentScreenshotUrl (handleScreenshotError d s0) = screenshotUrl d)"
proof (intro conjI impI)
  assume b: "truthy (backupScreenshotUrl d)"
  show "currentScreenshotUrl (handleScreenshotError d s0) = the (backupScreenshotUrl d)"
    using b by (simp add: s0_def reset_Some handleScreenshotError_def)
  show "pending (handleScreenshotError d s0)"
    using b by (simp add: s0_def reset_Some handleScreenshotError_def pending_def)
  show "\<not> unavailable (handleScreenshotError d s0)"
    using b by (simp add: s0_def reset_Some handleScreenshotError_def unavailable_def)
  show "currentScreenshotUrl (runImageEvents d s0 evs) =
          (if LoadFailed \<in> set evs then the (backupScreenshotUrl d) else screenshotUrl d)"
    unfolding s0_def by (rule active_source_after [OF b])
  {
    assume "unavailable (runImageEvents d s0 evs)"
    then show "2 \<le> count_list evs LoadFailed"
      unfolding s0_def by (rule unavailable_needs_two_failures [OF b])
  }
  {
    assume ne: "the (backupScreenshotUrl d) \<noteq> screenshotUrl d"
    show "unavailable (handleScreenshotError d (handleScreenshotError d s0))"
      using b ne by (simp add: s0_def reset_Some handleScreenshotError_def unavailable_def)
    show "currentScreenshotUrl (handleScreenshotError d (handleScreenshotError d s0))
            = the (backupScreenshotUrl d)"
      using b ne by (simp add: s0_def reset_Some handleScreenshotError_def)
  }
next
  assume nb: "\<not> truthy (backupScreenshotUrl d)"
  show "unavailable (handleScreenshotError d s0)"
    using nb by (simp add: s0_def reset_Some handleScreenshotError_def unavailable_def)
  show "\<not> imageLoading (handleScreenshotError d s0)"
    using nb by (simp add: s0_def reset_Some handleScreenshotError_def)
  show "currentScreenshotUrl (handleScreenshotError d s0) = screenshotUrl d"
    using nb by (simp add: s0_def reset_Some handleScreenshotError_def)
qed

theorem screenshot_fallback_machine_witness:
  "truthy (backupScreenshotUrl sampleCard) \<and>
   the (backupScreenshotUrl sampleCard) \<noteq> screenshotUrl sampleCard \<and>
   unavailable (runImageEvents sampleCard (resetOnData (Some sampleCard) initialSmartCardState)
                  [LoadFailed, LoadOk, LoadFailed]) \<and>
   2 \<le> count_list [LoadFailed, LoadOk, LoadFailed] LoadFailed \<and>
   currentScreenshotUrl
     (handleScreenshotError sampleCard (resetOnData (Some sampleCard) initialSmartCardState))
     = ''backup.png'' \<and>
   pending (handleScreenshotError sampleCard (resetOnData (Some sampleCard) initialSmartCardState)) \<and>
   unavailable
     (handleScreenshotError sampleCard
        (handleScreenshotError sampleCard (resetOnData (Some sampleCard) initialSmartCardState))) \<and>
   \<not> truthy (backupScreenshotUrl (sampleCard\<lparr>backupScreenshotUrl := None\<rparr>)) \<and>
   unavailable
     (handleScreenshotError (sampleCard\<lparr>backupScreenshotUrl := None\<rparr>)
        (resetOnData (Some (sampleCard\<lparr>backupScreenshotUrl := None\<rparr>)) initialSmartCardState))"
  using screenshot_fallback_machine
          [of sampleCard initialSmartCardState "[LoadFailed, LoadOk, LoadFailed]"]
        screenshot_fallback_machine
          [of "sampleCard\<lparr>backupScreenshotUrl := None\<rparr>" initialSmartCardState "[]"]
  by (simp add: sampleCard_def truthy_def initialSmartCardState_def runImageEvents_def
        resetOnData_def handleScreenshotError_def handleScreenshotLoad_def unavailable_def)

section \<open>Properties of the image export pipeline\<close>

text \<open>
  Claim C3. For either format, \<open>generateImage\<close> makes one capture with the full
  configuration. If it succeeds, that is the only capture. If it throws, exactly one more
  capture is made, with the same configuration plus \<open>skipFonts\<close>, and its outcome is the
  outcome of \<open>generateImage\<close>: when the retry throws \<open>err2\<close>, the caller gets \<open>err2\<close>. In no
  case are more than two captures made.
\<close>

theorem generateImage_one_retry:
  fixes env :: Env and options :: Options and format :: Format and w :: World
  defines "config \<equiv> options(''useCORS'' \<mapsto> OBool True, ''preferredFontFormat'' \<mapsto> OStr ''woff2'')"
  defines "first \<equiv> htmlToImage env (length (captures w)) format config"
  defines "retry \<equiv> htmlToImage env (Suc (length (captures w))) format (config(''skipFonts'' \<mapsto> OBool True))"
  shows "(\<forall>dataUrl. first = Inr dataUrl \<longrightarrow>
            generateImage env options format w
              = (Inr dataUrl, w\<lparr>captures := captures w @ [(format, config)]\<rparr>)) \<and>
         (\<forall>err. first = Inl err \<longrightarrow>
            generateImage env options format w
              = (retry, w\<lparr>captures := captures w @
                    [(format, config), (format, config(''skipFonts'' \<mapsto> OBool True))]\<rparr>)) \<and>
         (\<forall>err err2. first = Inl err \<and> retry = Inl err2 \<longrightarrow>
            fst (generateImage env options format w) = Inl err2) \<and>
         length (captures (snd (generateImage env options format w))) \<le> length (captures w) + 2"
  unfolding first_def retry_def config_def
  by (auto simp: generateImage_def capture_def Let_def split: sum.splits)

text \<open>
  Both attempts fail on a renderer that always throws, and the second error reaches the
  caller; on a renderer that works, the first capture is the only one.
\<close>

theorem generateImage_one_retry_witness:
  "htmlToImage failingRendererEnv (length (captures freshWorld)) svg
     (downloadSvgOptions(''useCORS'' \<mapsto> OBool True, ''preferredFontFormat'' \<mapsto> OStr ''woff2''))
     = Inl (Error ''font fetch failed'') \<and>
   htmlToImage failingRendererEnv (Suc (length (captures freshWorld))) svg
     (downloadSvgOptions(''useCORS'' \<mapsto> OBool True, ''preferredFontFormat'' \<mapsto> OStr ''woff2'',
                         ''skipFonts'' \<mapsto> OBool True))
     = Inl (Error ''tainted canvas'') \<and>
   fst (generateImage failingRendererEnv downloadSvgOptions svg freshWorld)
     = Inl (Error ''tainted canvas'') \<and>
   length (captures (snd (generateImage failingRendererEnv downloadSvgOptions svg freshWorld))) = 2 \<and>
   htmlToImage offlineEnv (length (captures freshWorld)) png
     (downloadPngOptions(''useCORS'' \<mapsto> OBool True, ''preferredFontFormat'' \<mapsto> OStr ''woff2''))
     = Inr ''data:image/png;base64,CARD'' \<and>
   fst (generateImage offlineEnv downloadPngOptions png freshWorld)
     = Inr ''data:image/png;base64,CARD'' \<and>
   length (captures (snd (generateImage offlineEnv downloadPngOptions png freshWorld))) = 1"
  using generateImage_one_retry
          [where env = failingRendererEnv and options = downloadSvgOptions and format = svg
             and w = freshWorld]
        generateImage_one_retry
          [where env = offlineEnv and options = downloadPngOptions and format = png
             and w = freshWorld]
  by (simp add: failingRendererEnv_def offlineEnv_def freshWorld_def downloadSvgOptions_def)

text \<open>
  What each export handler captures first, with a card shown and its node mounted. The PNG
  download makes a pre-warm capture (options \<open>cacheBust\<close> and \<open>skipFonts\<close>), then the real
  capture, and whatever the pre-warm capture returns or throws has no influence on what the
  handler does. The inline preview and the SVG download start with the real capture.
\<close>

lemma first_capture_of_each_export:
  assumes ready: "cardRef app" "cardData app \<noteq> None"
  shows "captures (snd (handleDownloadPng env (app, w))) ! length (captures w) = (png, prewarmOptions) \<and>
         captures (snd (handleDownloadPng env (app, w))) ! Suc (length (captures w))
           = (png, downloadPngOptions(''useCORS'' \<mapsto> OBool True, ''preferredFontFormat'' \<mapsto> OStr ''woff2'')) \<and>
         handleDownloadPng (env\<lparr>htmlToImage := (htmlToImage env)(length (captures w) := r)\<rparr>) (app, w)
           = handleDownloadPng env (app, w) \<and>
         captures (snd (handleSocialPreview env (app, w))) ! length (captures w)
           = (png, socialPreviewOptions(''useCORS'' \<mapsto> OBool True, ''preferredFontFormat'' \<mapsto> OStr ''woff2'')) \<and>
         captures (snd (handleDownloadSvg env (app, w))) ! length (captures w)
           = (svg, downloadSvgOptions(''useCORS'' \<mapsto> OBool True, ''preferredFontFormat'' \<mapsto> OStr ''woff2''))"
proof (intro conjI)
  show "captures (snd (handleDownloadPng env (app, w))) ! length (captures w) = (png, prewarmOptions)"
    using ready
    by (auto simp: handleDownloadPng_def generateImage_def capture_def Let_def nth_append
             split: sum.splits prod.splits)
  show "captures (snd (handleDownloadPng env (app, w))) ! Suc (length (captures w))
           = (png, downloadPngOptions(''useCORS'' \<mapsto> OBool True, ''preferredFontFormat'' \<mapsto> OStr ''woff2''))"
    using ready
    by (auto simp: handleDownloadPng_def generateImage_def capture_def Let_def nth_append
             split: sum.splits prod.splits)
  show "handleDownloadPng (env\<lparr>htmlToImage := (htmlToImage env)(length (captures w) := r)\<rparr>) (app, w)
           = handleDownloadPng env (app, w)"
    using ready
    by (auto simp: handleDownloadPng_def generateImage_def capture_def Let_def split: sum.splits)
  show "captures (snd (handleSocialPreview env (app, w))) ! length (captures w)
           = (png, socialPreviewOptions(''useCORS'' \<mapsto> OBool True, ''preferredFontFormat'' \<mapsto> OStr ''woff2''))"
    using ready
    by (auto simp: handleSocialPreview_def generateImage_def capture_def Let_def nth_append
             split: sum.splits prod.splits)
  show "captures (snd (handleDownloadSvg env (app, w))) ! length (captures w)
           = (svg, downloadSvgOptions(''useCORS'' \<mapsto> OBool True, ''preferredFontFormat'' \<mapsto> OStr ''woff2''))"
    using ready
    by (auto simp: handleDownloadSvg_def generateImage_def capture_def Let_def nth_append
             split: sum.splits prod.splits)
qed

text \<open>The PNG download offers the image of the second capture; the first one was discarded.\<close>

lemma png_download_discards_prewarm:
  "cardRef readyApp \<and> cardData readyApp \<noteq> None \<and>
   captures (snd (handleDownloadPng countingRendererEnv (readyApp, freshWorld))) ! 0
     = (png, prewarmOptions) \<and>
   downloads (fst (handleDownloadPng countingRendererEnv (readyApp, freshWorld)))
     = [(''smart-card-example.com-light.png'', ''data:image/png;base64,CARD1'')] \<and>
   length (captures (snd (handleDownloadPng countingRendererEnv (readyApp, freshWorld)))) = 2"
  using first_capture_of_each_export
          [where app = readyApp and env = countingRendererEnv and w = freshWorld]
  by (simp add: readyApp_def initialAppState_def sampleCard_def countingRendererEnv_def
        offlineEnv_def freshWorld_def handleDownloadPng_def generateImage_def capture_def
        triggerDownload_def showNat.simps char_of_eq_iff)

text \<open>
  Claim C7: every export capture, for the download and for the inline preview, is preceded
  by a discardable pre-warm capture. The PNG download does so (lemma above); the inline
  preview does not. Evaluated on a mounted card and a renderer that stamps each image with
  the number of its capture: \<open>handleSocialPreview\<close> makes a single capture, with the preview
  options, and publishes the image of that very first capture.
\<close>

theorem social_preview_makes_no_prewarm:
  "cardRef readyApp \<and> cardData readyApp \<noteq> None \<and>
   captures (snd (handleSocialPreview countingRendererEnv (readyApp, freshWorld)))
     = [(png, socialPreviewOptions(''useCORS'' \<mapsto> OBool True, ''preferredFontFormat'' \<mapsto> OStr ''woff2''))] \<and>
   socialImage (fst (handleSocialPreview countingRendererEnv (readyApp, freshWorld)))
     = ''data:image/png;base64,CARD0''"
  by (simp add: readyApp_def initialAppState_def sampleCard_def countingRendererEnv_def
        offlineEnv_def freshWorld_def handleSocialPreview_def generateImage_def capture_def
        showNat.simps char_of_eq_iff)

text \<open>So the handler is ready, one capture is logged, and its image is the one shown.\<close>

theorem social_preview_makes_no_prewarm_witness:
  "\<not> (\<not> cardRef readyApp \<or> cardData readyApp = None) \<and>
   length (captures (snd (handleSocialPreview countingRendererEnv (readyApp, freshWorld)))) = 1 \<and>
   socialImage (fst (handleSocialPreview countingRendererEnv (readyApp, freshWorld)))
     = ''data:image/png;base64,CARD0''"
  using social_preview_makes_no_prewarm by simp

section \<open>Evaluation on the sample worlds\<close>

text \<open>The definitions that the simplifier unfolds to run the model on a concrete input.\<close>

lemmas string_eval =
  char_of_eq_iff lower_ascii_def hasHttpScheme_def trim_def trimStart_def trimEnd_def
  ws1_def ws2_def ws3_def normalizeInput_def url_hostname_def hostChar_def isLetter_def
  sublist_code Let_def

lemmas world_eval =
  offlineEnv_def freshWorld_def initialAppState_def typedApp_def VIEWPORT_OPTIONS_def
  sampleCard_def readyApp_def

lemmas pipeline_eval =
  handleGenerate_def generateCard_def fetchFaviconBase64_def faviconServices_def
  faviconAttempt_def getProxiedUrl_def fetchMetadataWithGemini_def tryCatch_def
  metadataRequest_def hostnameFallback_def websiteFallback_def promiseAll3_def
  microlinkUrl_def mshotsUrl_def displayDomain_def readerResult_def startsWith_def
  includesStr_def blob_size_def truthy_def cleanText_def
  encodeURIComponent_def percentEncode_def encodeByte_def unreserved_def hexDigit_def
  showInt_def showNat.simps

text \<open>
  One full generation, offline: the metadata and favicon fallbacks are taken, five clock
  readings are made, three favicon requests are sent.
\<close>

lemma typed_generates:
  "handleGenerate offlineEnv (typedApp, freshWorld) =
     (typedApp\<lparr>cardData := Some generatedCard, status := \<lparr>step = completed, message = None\<rparr>\<rparr>,
      \<lparr>clock_reads = 5,
       requests =
         [''https://wsrv.nl/?url=https%3A%2F%2Ft2.gstatic.com%2FfaviconV2%3Fclient%3DSOCIAL%26type%3DFAVICON%26fallback_opts%3DTYPE%2CSIZE%2CURL%26url%3Dhttps%253A%252F%252Fwww.example.com%252Fpath%26size%3D128&output=png&n=1700000000000'',
          ''https://wsrv.nl/?url=https%3A%2F%2Fwww.google.com%2Fs2%2Ffavicons%3Fdomain%3Dexample.com%26sz%3D128&output=png&n=1700000000000'',
          ''https://wsrv.nl/?url=https%3A%2F%2Ficons.duckduckgo.com%2Fip3%2Fexample.com.ico&output=png&n=1700000000000''],
       captures = []\<rparr>)"
  by (simp add: generatedCard_def string_eval world_eval pipeline_eval)

section \<open>Properties of the Card Assembler\<close>

lemma replaceFirst_absent:
  "pat \<noteq> [] \<Longrightarrow> \<not> sublist pat s \<Longrightarrow> replaceFirst pat rep s = s"
  by (induction s) (auto simp: sublist_Cons_right)

lemma generated_domain:
  assumes "trim (urlInput app) \<noteq> []"
    and "step (status (fst (handleGenerate env (app, w)))) = completed"
  shows "\<exists>h c. URL_hostname env (normalizeInput (urlInput app)) = Some h \<and>
               cardData (fst (handleGenerate env (app, w))) = Some c \<and>
               url c = normalizeInput (urlInput app) \<and> domain c = displayDomain h"
  using assms
  by (auto simp: handleGenerate_def generateCard_def Let_def
           split: option.splits prod.splits sum.splits)

text \<open>
  Claim C6, as stated, fails: the host name \<open>www.www.example.com\<close> gives the display domain
  \<open>www.example.com\<close>, which has a leading \<open>www.\<close>.
\<close>

theorem display_domain_counterexample:
  "url_hostname ''https://www.www.example.com'' = Some ''www.www.example.com'' \<and>
   displayDomain ''www.www.example.com'' = ''www.example.com'' \<and>
   prefix ''www.'' (displayDomain ''www.www.example.com'')"
  by (simp add: string_eval displayDomain_def)

text \<open>
  Claim C6, amended. A host name that starts with \<open>www.\<close> loses that one prefix; a host name
  in which \<open>www.\<close> does not occur is kept as it is, and then has no leading \<open>www.\<close>; the
  record of a completed generation carries the display domain of the host name of the
  normalized address; and \<open>https://www.example.com/path\<close> gives \<open>example.com\<close>.
\<close>

theorem display_domain_strips_www:
  "displayDomain (''www.'' @ r) = r \<and>
   (\<not> sublist ''www.'' h \<longrightarrow> displayDomain h = h \<and> \<not> prefix ''www.'' (displayDomain h)) \<and>
   (trim (urlInput app) \<noteq> [] \<and> step (status (fst (handleGenerate env (app, w)))) = completed \<longrightarrow>
      map_option domain (cardData (fst (handleGenerate env (app, w))))
        = map_option displayDomain (URL_hostname env (normalizeInput (urlInput app)))) \<and>
   map_option displayDomain (url_hostname (normalizeInput ''https://www.example.com/path''))
     = Some ''example.com''"
proof (intro conjI impI)
  show "displayDomain (''www.'' @ r) = r" by (simp add: displayDomain_def)
next
  assume a: "\<not> sublist ''www.'' h"
  then show "displayDomain h = h" by (simp add: displayDomain_def replaceFirst_absent)
  with a show "\<not> prefix ''www.'' (displayDomain h)" by (auto simp: sublist_def prefix_def)
next
  assume "trim (urlInput app) \<noteq> [] \<and> step (status (fst (handleGenerate env (app, w)))) = completed"
  with generated_domain [of app env w]
  show "map_option domain (cardData (fst (handleGenerate env (app, w))))
        = map_option displayDomain (URL_hostname env (normalizeInput (urlInput app)))"
    by auto
next
  show "map_option displayDomain (url_hostname (normalizeInput ''https://www.example.com/path''))
     = Some ''example.com''"
    by (simp add: string_eval displayDomain_def)
qed

text \<open>The offline generation for \<open>https://www.example.com/path\<close> shows \<open>example.com\<close>.\<close>

theorem display_domain_strips_www_witness:
  "displayDomain (''www.'' @ ''example.com'') = ''example.com'' \<and>
   \<not> sublist ''www.'' ''example.com'' \<and> displayDomain ''example.com'' = ''example.com'' \<and>
   trim (urlInput typedApp) \<noteq> [] \<and>
   step (status (fst (handleGenerate offlineEnv (typedApp, freshWorld)))) = completed \<and>
   URL_hostname offlineEnv (normalizeInput (urlInput typedApp)) = Some ''www.example.com'' \<and>
   map_option domain (cardData (fst (handleGenerate offlineEnv (typedApp, freshWorld))))
     = Some ''example.com''"
  using display_domain_strips_www
          [where r = "''example.com''" and h = "''example.com''" and app = typedApp
             and env = offlineEnv and w = freshWorld]
  unfolding typed_generates
  by (simp add: generatedCard_def typedApp_def initialAppState_def offlineEnv_def
        displayDomain_def string_eval)

lemma handleGenerate_on_throw:
  assumes "trim (urlInput app) \<noteq> []"
    and "fst (generateCard env
               (app\<lparr>status := \<lparr>step = fetching_metadata,
                                 message = Some ''Analyzing URL with Gemini...''\<rparr>\<rparr>)
               (normalizeInput (urlInput app)) w) = Inl e"
  shows "fst (handleGenerate env (app, w))
           = app\<lparr>status := \<lparr>step = error,
                              message = Some ''Failed to generate card. Please try again.''\<rparr>\<rparr>"
  using assms
  by (auto simp: handleGenerate_def Let_def split: prod.splits sum.splits)

lemma generateCard_unparseable:
  "URL_hostname env u = None \<Longrightarrow> generateCard env app u w = (Inl (TypeError ''Invalid URL''), w)"
  by (simp add: generateCard_def)

text \<open>
  Claim C4. Whenever \<open>handleGenerate\<close> leaves the status at \<open>error\<close>, the current record is
  the one from before the call, and nothing but the status differs from the state before.
  Both causes named in the claim end this way: an address that the URL constructor rejects,
  and any exception \<open>e\<close> raised inside the \<open>try\<close> block.
\<close>

theorem failed_generation_keeps_record:
  "(step (status (fst (handleGenerate env (app, w)))) = error \<longrightarrow>
      cardData (fst (handleGenerate env (app, w))) = cardData app \<and>
      fst (handleGenerate env (app, w)) = app\<lparr>status := status (fst (handleGenerate env (app, w)))\<rparr>) \<and>
   (trim (urlInput app) \<noteq> [] \<and> URL_hostname env (normalizeInput (urlInput app)) = None \<longrightarrow>
      fst (handleGenerate env (app, w))
        = app\<lparr>status := \<lparr>step = error,
                           message = Some ''Failed to generate card. Please try again.''\<rparr>\<rparr>) \<and>
   (trim (urlInput app) \<noteq> [] \<and>
    fst (generateCard env
           (app\<lparr>status := \<lparr>step = fetching_metadata,
                             message = Some ''Analyzing URL with Gemini...''\<rparr>\<rparr>)
           (normalizeInput (urlInput app)) w) = Inl e \<longrightarrow>
      fst (handleGenerate env (app, w))
        = app\<lparr>status := \<lparr>step = error,
                           message = Some ''Failed to generate card. Please try again.''\<rparr>\<rparr>)"
proof (intro conjI impI)
  assume "step (status (fst (handleGenerate env (app, w)))) = error"
  then show "cardData (fst (handleGenerate env (app, w))) = cardData app"
    by (auto simp: handleGenerate_def Let_def split: prod.splits sum.splits if_splits)
next
  assume "step (status (fst (handleGenerate env (app, w)))) = error"
  then show "fst (handleGenerate env (app, w))
               = app\<lparr>status := status (fst (handleGenerate env (app, w)))\<rparr>"
    by (auto simp: handleGenerate_def Let_def split: prod.splits sum.splits if_splits)
next
  assume "trim (urlInput app) \<noteq> [] \<and> URL_hostname env (normalizeInput (urlInput app)) = None"
  then show "fst (handleGenerate env (app, w))
        = app\<lparr>status := \<lparr>step = error,
                           message = Some ''Failed to generate card. Please try again.''\<rparr>\<rparr>"
    by (intro handleGenerate_on_throw [where e = "TypeError ''Invalid URL''"])
       (simp_all add: generateCard_unparseable)
next
  assume "trim (urlInput app) \<noteq> [] \<and>
    fst (generateCard env
           (app\<lparr>status := \<lparr>step = fetching_metadata,
                             message = Some ''Analyzing URL with Gemini...''\<rparr>\<rparr>)
           (normalizeInput (urlInput app)) w) = Inl e"
  then show "fst (handleGenerate env (app, w))
        = app\<lparr>status := \<lparr>step = error,
                           message = Some ''Failed to generate card. Please try again.''\<rparr>\<rparr>"
    by (intro handleGenerate_on_throw [where e = e]) simp_all
qed

text \<open>
  A card is shown, the user types \<open>exa mple\<close>, which the URL constructor rejects because of
  the space in the host: the status turns to error, the card stays.
\<close>

lemma retyped_fails:
  "handleGenerate offlineEnv (retypedApp, freshWorld) =
     (retypedApp\<lparr>status := \<lparr>step = error,
                                message = Some ''Failed to generate card. Please try again.''\<rparr>\<rparr>,
      freshWorld)"
  by (simp add: handleGenerate_def generateCard_def retypedApp_def readyApp_def
        initialAppState_def offlineEnv_def string_eval)

theorem failed_generation_keeps_record_witness:
  "trim (urlInput retypedApp) \<noteq> [] \<and>
   URL_hostname offlineEnv (normalizeInput (urlInput retypedApp)) = None \<and>
   fst (generateCard offlineEnv
          (retypedApp\<lparr>status := \<lparr>step = fetching_metadata,
                                   message = Some ''Analyzing URL with Gemini...''\<rparr>\<rparr>)
          (normalizeInput (urlInput retypedApp)) freshWorld) = Inl (TypeError ''Invalid URL'') \<and>
   step (status (fst (handleGenerate offlineEnv (retypedApp, freshWorld)))) = error \<and>
   cardData retypedApp = Some sampleCard \<and>
   cardData (fst (handleGenerate offlineEnv (retypedApp, freshWorld))) = Some sampleCard"
  using failed_generation_keeps_record
          [where env = offlineEnv and app = retypedApp and w = freshWorld
             and e = "TypeError ''Invalid URL''"]
  unfolding retyped_fails
  by (simp add: generateCard_def retypedApp_def readyApp_def initialAppState_def offlineEnv_def
        string_eval)

text \<open>
  The same for an address with a lone surrogate: the URL constructor accepts it, the
  favicon acquisition rejects with \<open>URIError\<close>, and the generation ends in the error status
  with the card unchanged.
\<close>

lemma surrogate_generation_fails:
  "handleGenerate offlineEnv (surrogateApp, freshWorld) =
     (surrogateApp\<lparr>status := \<lparr>step = error,
                                  message = Some ''Failed to generate card. Please try again.''\<rparr>\<rparr>,
      freshWorld)"
  by (simp add: handleGenerate_def generateCard_def fetchFaviconBase64_def faviconServices_def
        encodeURIComponent_def promiseAll3_def fetchMetadataWithGemini_def tryCatch_def
        metadataRequest_def hostnameFallback_def surrogateApp_def surrogateAddress_def
        readyApp_def initialAppState_def offlineEnv_def string_eval)

section \<open>Properties of the Metadata Acquirer\<close>

lemma fetchMetadata_total: "\<exists>j. fetchMetadataWithGemini env u = Inr j"
  by (auto simp: fetchMetadataWithGemini_def tryCatch_def hostnameFallback_def
           split: sum.splits option.splits)

lemma fetchMetadata_on_failure:
  assumes "metadataRequest env u = Inl e"
  shows "fetchMetadataWithGemini env u =
           Inr (case URL_hostname env u of
                  Some h \<Rightarrow>
                    JObj [(''title'', JStr h), (''description'', JStr (''Link to '' @ u)),
                          (''author'', JStr []), (''publishedTime'', JStr []),
                          (''keywords'', JArr [])]
                | None \<Rightarrow> websiteFallback u)"
  using assms
  by (simp add: fetchMetadataWithGemini_def tryCatch_def hostnameFallback_def
           split: option.splits)

lemma cleanText_fenced: "cleanText ''```json [] ```'' = ''[]''"
  by code_simp

text \<open>
  Claim C1, as stated, fails: for \<open>https://www.example.com/path\<close> with the metadata service
  down, the title of the fallback is the host name \<open>www.example.com\<close> while the display
  domain of the card is \<open>example.com\<close>, and the fallback is not the two-property object: it
  also carries \<open>author\<close>, \<open>publishedTime\<close> and \<open>keywords\<close>.
\<close>

theorem metadata_fallback_counterexample:
  "generateContent offlineEnv ''https://www.example.com/path'' = GenerateRejects (Error ''network'') \<and>
   map_option displayDomain (URL_hostname offlineEnv ''https://www.example.com/path'')
     = Some ''example.com'' \<and>
   fetchMetadataWithGemini offlineEnv ''https://www.example.com/path'' \<noteq>
     Inr (JObj [(''title'', JStr ''example.com''),
                (''description'', JStr (''Link to '' @ ''https://www.example.com/path''))]) \<and>
   metadataField (projr (fetchMetadataWithGemini offlineEnv ''https://www.example.com/path'')) ''title''
     = Inr (Some (JStr ''www.example.com''))"
  by (simp add: fetchMetadataWithGemini_def tryCatch_def metadataRequest_def hostnameFallback_def
        displayDomain_def offlineEnv_def string_eval)

text \<open>
  Claim C1, amended. \<open>fetchMetadataWithGemini\<close> never throws. When the request is rejected,
  the response text is missing or empty, or the cleaned text is not parseable JSON, the
  result is the fallback object: title the host name of the address as the URL constructor
  gives it, description \<open>Link to\<close> followed by the address, and empty \<open>author\<close>,
  \<open>publishedTime\<close> and \<open>keywords\<close>; when the address itself does not parse, title
  \<open>Website\<close> and the address as description. Text that parses is returned as parsed,
  whatever its shape.
\<close>

theorem metadata_fallback:
  "(\<exists>j. fetchMetadataWithGemini env u = Inr j) \<and>
   (generateContent env u = GenerateRejects e \<or>
    generateContent env u = GenerateResponse None \<or>
    generateContent env u = GenerateResponse (Some []) \<or>
    generateContent env u = GenerateResponse (Some t) \<and> JSON_parse env (cleanText t) = None \<longrightarrow>
      fetchMetadataWithGemini env u =
        Inr (case URL_hostname env u of
               Some h \<Rightarrow>
                 JObj [(''title'', JStr h), (''description'', JStr (''Link to '' @ u)),
                       (''author'', JStr []), (''publishedTime'', JStr []),
                       (''keywords'', JArr [])]
             | None \<Rightarrow> websiteFallback u)) \<and>
   (generateContent env u = GenerateResponse (Some t) \<and> t \<noteq> [] \<and>
    JSON_parse env (cleanText t) = Some j \<longrightarrow>
      fetchMetadataWithGemini env u = Inr j)"
proof (intro conjI impI)
  show "\<exists>j. fetchMetadataWithGemini env u = Inr j" by (rule fetchMetadata_total)
next
  assume "generateContent env u = GenerateRejects e \<or>
    generateContent env u = GenerateResponse None \<or>
    generateContent env u = GenerateResponse (Some []) \<or>
    generateContent env u = GenerateResponse (Some t) \<and> JSON_parse env (cleanText t) = None"
  then have "\<exists>e'. metadataRequest env u = Inl e'"
    by (auto simp: metadataRequest_def truthy_def)
  then show "fetchMetadataWithGemini env u =
        Inr (case URL_hostname env u of
               Some h \<Rightarrow>
                 JObj [(''title'', JStr h), (''description'', JStr (''Link to '' @ u)),
                       (''author'', JStr []), (''publishedTime'', JStr []),
                       (''keywords'', JArr [])]
             | None \<Rightarrow> websiteFallback u)"
    by (auto dest: fetchMetadata_on_failure)
next
  assume "generateContent env u = GenerateResponse (Some t) \<and> t \<noteq> [] \<and>
    JSON_parse env (cleanText t) = Some j"
  then show "fetchMetadataWithGemini env u = Inr j"
    by (simp add: fetchMetadataWithGemini_def tryCatch_def metadataRequest_def truthy_def)
qed

text \<open>
  The service is down: the fallback for \<open>www.example.com\<close>. The service answers a fenced
  empty array: the empty array is returned.
\<close>

theorem metadata_fallback_witness:
  "generateContent offlineEnv ''https://www.example.com/path'' = GenerateRejects (Error ''network'') \<and>
   fetchMetadataWithGemini offlineEnv ''https://www.example.com/path'' =
     Inr (JObj [(''title'', JStr ''www.example.com''),
                (''description'', JStr ''Link to https://www.example.com/path''),
                (''author'', JStr []), (''publishedTime'', JStr []), (''keywords'', JArr [])]) \<and>
   generateContent wrongShapeEnv ''https://www.example.com/path''
     = GenerateResponse (Some ''```json [] ```'') \<and>
   JSON_parse wrongShapeEnv (cleanText ''```json [] ```'') = Some (JArr []) \<and>
   fetchMetadataWithGemini wrongShapeEnv ''https://www.example.com/path'' = Inr (JArr [])"
  using metadata_fallback
          [where env = offlineEnv and u = "''https://www.example.com/path''"
             and e = "Error ''network''"]
        metadata_fallback
          [where env = wrongShapeEnv and u = "''https://www.example.com/path''"
             and t = "''```json [] ```''" and j = "JArr []"]
  unfolding cleanText_fenced
  by (simp add: wrongShapeEnv_def offlineEnv_def string_eval)

section \<open>Properties of the Favicon Acquirer\<close>

lemma getProxiedUrl_world:
  "snd (getProxiedUrl env s w) = w\<lparr>clock_reads := Suc (clock_reads w)\<rparr>"
  by (simp add: getProxiedUrl_def)

lemma proxiedAt_0: "proxiedAt env (s # rest) w 0 = fst (getProxiedUrl env s w)"
  by (simp add: proxiedAt_def getProxiedUrl_def)

lemma proxiedAt_Suc:
  "proxiedAt env (s # rest) w (Suc j)
     = proxiedAt env rest (w\<lparr>clock_reads := Suc (clock_reads w), requests := rs\<rparr>) j"
  by (simp add: proxiedAt_def getProxiedUrl_def)

lemma faviconAttempt_world:
  "snd (faviconAttempt env s w)
     = w\<lparr>clock_reads := Suc (clock_reads w), requests := requests w @ [proxiedAt env (s # rest) w 0]\<rparr>"
  by (simp add: faviconAttempt_def proxiedAt_def getProxiedUrl_def Let_def
           split: FetchOutcome.splits BlobOutcome.splits)

lemma faviconAttempt_rejected:
  "candidateRejected (fetch env (proxiedAt env (s # rest) w 0)) \<Longrightarrow>
   (\<exists>e. fst (faviconAttempt env s w) = Inl e) \<or> fst (faviconAttempt env s w) = Inr Continue"
  by (auto simp: faviconAttempt_def proxiedAt_def getProxiedUrl_def Let_def candidateRejected_def
           split: FetchOutcome.splits BlobOutcome.splits)

lemma faviconAttempt_accepted:
  "candidateAccepted (fetch env (proxiedAt env (s # rest) w 0)) blob \<Longrightarrow>
   fst (faviconAttempt env s w) = Inr (Return (readerResult (readAsDataURL env blob)))"
  by (auto simp: faviconAttempt_def proxiedAt_def getProxiedUrl_def Let_def candidateAccepted_def
           split: FetchOutcome.splits BlobOutcome.splits)

text \<open>A rejected candidate is skipped: the loop goes on with the next service.\<close>

lemma faviconLoop_skip:
  assumes "candidateRejected (fetch env (proxiedAt env (s # rest) w 0))"
  shows "faviconLoop env (s # rest) w
           = faviconLoop env rest
               (w\<lparr>clock_reads := Suc (clock_reads w),
                  requests := requests w @ [proxiedAt env (s # rest) w 0]\<rparr>)"
proof -
  obtain r w' where a: "faviconAttempt env s w = (r, w')" by (cases "faviconAttempt env s w")
  with faviconAttempt_world [of env s w rest]
  have w': "w' = w\<lparr>clock_reads := Suc (clock_reads w),
                   requests := requests w @ [proxiedAt env (s # rest) w 0]\<rparr>"
    by simp
  from faviconAttempt_rejected [OF assms] a have "(\<exists>e. r = Inl e) \<or> r = Inr Continue" by simp
  with a w' show ?thesis by auto
qed

text \<open>An accepted candidate ends the loop with what the reader delivers.\<close>

lemma faviconLoop_take:
  assumes "candidateAccepted (fetch env (proxiedAt env (s # rest) w 0)) blob"
  shows "faviconLoop env (s # rest) w
           = (Inr (readerResult (readAsDataURL env blob)),
              w\<lparr>clock_reads := Suc (clock_reads w),
                requests := requests w @ [proxiedAt env (s # rest) w 0]\<rparr>)"
proof -
  obtain r w' where a: "faviconAttempt env s w = (r, w')" by (cases "faviconAttempt env s w")
  with faviconAttempt_world [of env s w rest]
  have w': "w' = w\<lparr>clock_reads := Suc (clock_reads w),
                   requests := requests w @ [proxiedAt env (s # rest) w 0]\<rparr>"
    by simp
  from faviconAttempt_accepted [OF assms] a have "r = Inr (Return (readerResult (readAsDataURL env blob)))"
    by simp
  with a w' show ?thesis by simp
qed



lemma faviconLoop_first_accepted:
  assumes "i < length services"
    and "\<forall>j<i. candidateRejected (fetch env (proxiedAt env services w j))"
    and "candidateAccepted (fetch env (proxiedAt env services w i)) blob"
  shows "faviconLoop env services w
           = (Inr (readerResult (readAsDataURL env blob)),
              w\<lparr>clock_reads := clock_reads w + Suc i,
                requests := requests w @ map (proxiedAt env services w) [0..<Suc i]\<rparr>)"
  using assms
proof (induction services arbitrary: w i)
  case Nil
  then show ?case by simp
next
  case (Cons s rest)
  let ?w' = "w\<lparr>clock_reads := Suc (clock_reads w),
                requests := requests w @ [proxiedAt env (s # rest) w 0]\<rparr>"
  show ?case
  proof (cases i)
    case 0
    with Cons.prems faviconLoop_take [of env s rest w blob] show ?thesis
      by (simp del: faviconLoop.simps)
  next
    case (Suc k)
    from Cons.prems Suc have first: "candidateRejected (fetch env (proxiedAt env (s # rest) w 0))"
      by auto
    from Cons.prems Suc have k: "k < length rest" by simp
    have later: "\<forall>j<k. candidateRejected (fetch env (proxiedAt env rest ?w' j))"
    proof (intro allI impI)
      fix j assume "j < k"
      with Cons.prems Suc have "candidateRejected (fetch env (proxiedAt env (s # rest) w (Suc j)))"
        by auto
      then show "candidateRejected (fetch env (proxiedAt env rest ?w' j))"
        by (simp add: proxiedAt_Suc [where rs = "requests w @ [proxiedAt env (s # rest) w 0]"])
    qed
    from Cons.prems Suc
    have acc: "candidateAccepted (fetch env (proxiedAt env rest ?w' k)) blob"
      by (simp add: proxiedAt_Suc [where rs = "requests w @ [proxiedAt env (s # rest) w 0]"])
    have shift: "map (proxiedAt env (s # rest) w) [0..<Suc i]
                   = proxiedAt env (s # rest) w 0 # map (proxiedAt env rest ?w') [0..<Suc k]"
      unfolding Suc
      by (simp add: map_upt_Suc proxiedAt_Suc [where rs = "requests w @ [proxiedAt env (s # rest) w 0]"]
               del: upt_Suc)
    show ?thesis
      unfolding faviconLoop_skip [OF first] Cons.IH [OF k later acc] shift
      by (simp add: Suc)
  qed
qed

lemma faviconServices_built:
  "faviconServices dname u = Inr services \<Longrightarrow> length services = 3 \<and> \<not> loneSurrogate u"
  by (auto simp: faviconServices_def encodeURIComponent_def split: if_splits)








text \<open>
  Claim C10. Once the list of services is built: if the candidates before the \<open>i\<close>-th are
  rejected and the \<open>i\<close>-th passes the status, size and type checks, but the reader delivers
  \<open>null\<close> or a string that does not start with \<open>data:image\<close>, the result is the empty string
  and the requests made are those for the candidates up to the \<open>i\<close>-th only: the remaining
  ones are not attempted.
\<close>

theorem favicon_failed_conversion_stops:
  assumes "faviconServices dname u = Inr services"
    and "i < 3"
    and "\<forall>j<i. candidateRejected (fetch env (proxiedAt env services w j))"
    and "candidateAccepted (fetch env (proxiedAt env services w i)) blob"
    and "readAsDataURL env blob = None \<or>
         (\<exists>r. readAsDataURL env blob = Some r \<and> \<not> startsWith r ''data:image'')"
  shows "fetchFaviconBase64 env dname u w
           = (Inr [], w\<lparr>clock_reads := clock_reads w + Suc i,
                          requests := requests w @
                            map (proxiedAt env services w) [0..<Suc i]\<rparr>)"
proof -
  from assms(1) assms(2) have i: "i < length services"
    by (simp add: faviconServices_built)
  from assms(5) have "readerResult (readAsDataURL env blob) = []"
    by (auto simp: readerResult_def)
  with faviconLoop_first_accepted [OF i assms(3) assms(4)] assms(1) show ?thesis
    by (simp add: fetchFaviconBase64_def)
qed

text \<open>The sample requests, and what the two sample worlds answer to them.\<close>

lemma showInt_sample: "showInt 1700000000000 = ''1700000000000''"
  by (simp add: showInt_def showNat.simps char_of_eq_iff)

lemma sample_services_built: "faviconServices ''example.com'' sampleAddress = Inr sampleServices"
  by (simp add: faviconServices_def sampleAddress_def sampleServices_def encodeURIComponent_def
        percentEncode_def encodeByte_def unreserved_def hexDigit_def char_of_eq_iff)

lemma sample_services:
  "map percentEncode sampleServices =
     [''https%3A%2F%2Ft2.gstatic.com%2FfaviconV2%3Fclient%3DSOCIAL%26type%3DFAVICON%26fallback_opts%3DTYPE%2CSIZE%2CURL%26url%3Dhttps%253A%252F%252Fexample.com%26size%3D128'',
      ''https%3A%2F%2Fwww.google.com%2Fs2%2Ffavicons%3Fdomain%3Dexample.com%26sz%3D128'',
      ''https%3A%2F%2Ficons.duckduckgo.com%2Fip3%2Fexample.com.ico'']"
  by (simp add: sampleServices_def percentEncode_def encodeByte_def unreserved_def
        hexDigit_def char_of_eq_iff)


lemma sample_proxiedAt:
  assumes "Date_now env = (\<lambda>k. 1700000000000)" and "j < 3"
  shows "proxiedAt env sampleServices w j
           = sampleRequests ! j"
proof -
  have len: "j < length sampleServices"
    using assms(2) by (simp add: sampleServices_def)
  have "percentEncode (sampleServices ! j)
          = map percentEncode sampleServices ! j"
    using len by simp
  then have "proxiedAt env sampleServices w j
          = ''https://wsrv.nl/?url=''
              @ map percentEncode sampleServices ! j
              @ ''&output=png&n=1700000000000''"
    by (simp add: proxiedAt_def getProxiedUrl_def assms(1) showInt_sample)
  also have "\<dots> = sampleRequests ! j"
    using assms(2) unfolding sample_services sampleRequests_def
    by (auto simp: numeral_3_eq_3 less_Suc_eq)
  finally show ?thesis .
qed





lemma octet_stream_clock: "Date_now octetStreamEnv = (\<lambda>k. 1700000000000)"
  by (simp add: octetStreamEnv_def offlineEnv_def)

lemma octet_stream_fetch:
  "fetch octetStreamEnv (sampleRequests ! 0)
     = Response False (BlobOk \<lparr>blob_bytes = ''Not Found'', blob_type = ''text/plain''\<rparr>) \<and>
   fetch octetStreamEnv (sampleRequests ! Suc 0)
     = Response True (BlobOk \<lparr>blob_bytes = replicate 120 (CHR ''x''),
                               blob_type = ''application/octet-stream''\<rparr>) \<and>
   fetch octetStreamEnv (sampleRequests ! 2)
     = Response True (BlobOk \<lparr>blob_bytes = replicate 300 (CHR ''y''), blob_type = ''image/x-icon''\<rparr>)"
  by (simp add: octetStreamEnv_def sampleRequests_def sublist_code)



text \<open>
  The second service delivers bytes typed \<open>application/octet-stream\<close>: the result is the
  empty string after two requests, although the third service would deliver an icon.
\<close>

theorem favicon_failed_conversion_stops_witness:
  "faviconServices ''example.com'' sampleAddress = Inr sampleServices \<and>
   Suc 0 < 3 \<and>
   candidateRejected (fetch octetStreamEnv
     (proxiedAt octetStreamEnv sampleServices freshWorld 0)) \<and>
   candidateAccepted (fetch octetStreamEnv
     (proxiedAt octetStreamEnv sampleServices freshWorld (Suc 0)))
     \<lparr>blob_bytes = replicate 120 (CHR ''x''), blob_type = ''application/octet-stream''\<rparr> \<and>
   readAsDataURL octetStreamEnv
     \<lparr>blob_bytes = replicate 120 (CHR ''x''), blob_type = ''application/octet-stream''\<rparr>
     = Some (''data:application/octet-stream;base64,'' @ replicate 120 (CHR ''x'')) \<and>
   \<not> startsWith (''data:application/octet-stream;base64,'' @ replicate 120 (CHR ''x'')) ''data:image'' \<and>
   candidateAccepted (fetch octetStreamEnv
     (proxiedAt octetStreamEnv sampleServices freshWorld 2))
     \<lparr>blob_bytes = replicate 300 (CHR ''y''), blob_type = ''image/x-icon''\<rparr> \<and>
   fetchFaviconBase64 octetStreamEnv ''example.com'' sampleAddress freshWorld
     = (Inr [], \<lparr>clock_reads = 2, requests = take 2 sampleRequests, captures = []\<rparr>)"
proof -
  let ?at = "proxiedAt octetStreamEnv sampleServices freshWorld"
  let ?blob = "\<lparr>blob_bytes = replicate 120 (CHR ''x''), blob_type = ''application/octet-stream''\<rparr>"
  have r0: "candidateRejected (fetch octetStreamEnv (?at 0))"
    by (simp add: sample_proxiedAt octet_stream_clock octet_stream_fetch candidateRejected_def)
  have a1: "candidateAccepted (fetch octetStreamEnv (?at (Suc 0))) ?blob"
    by (simp add: sample_proxiedAt octet_stream_clock octet_stream_fetch candidateAccepted_def
          blob_size_def includesStr_def sublist_code)
  have a2: "candidateAccepted (fetch octetStreamEnv (?at 2))
              \<lparr>blob_bytes = replicate 300 (CHR ''y''), blob_type = ''image/x-icon''\<rparr>"
    by (simp add: sample_proxiedAt octet_stream_clock octet_stream_fetch candidateAccepted_def
          blob_size_def includesStr_def sublist_code)
  have rd: "readAsDataURL octetStreamEnv ?blob
              = Some (''data:application/octet-stream;base64,'' @ replicate 120 (CHR ''x''))"
    by (simp add: octetStreamEnv_def)
  have ns: "\<not> startsWith (''data:application/octet-stream;base64,'' @ replicate 120 (CHR ''x''))
               ''data:image''"
    by (simp add: startsWith_def)
  have before: "\<forall>j<Suc 0. candidateRejected (fetch octetStreamEnv (?at j))"
    using r0 by simp
  have conv: "readAsDataURL octetStreamEnv ?blob = None \<or>
              (\<exists>r. readAsDataURL octetStreamEnv ?blob = Some r \<and> \<not> startsWith r ''data:image'')"
    using rd ns by simp
  have "fetchFaviconBase64 octetStreamEnv ''example.com'' sampleAddress freshWorld
          = (Inr [], freshWorld\<lparr>clock_reads := clock_reads freshWorld + Suc (Suc 0),
                                 requests := requests freshWorld @ map ?at [0..<Suc (Suc 0)]\<rparr>)"
    by (rule favicon_failed_conversion_stops [OF sample_services_built _ before a1 conv]) simp
  then have "fetchFaviconBase64 octetStreamEnv ''example.com'' sampleAddress freshWorld
          = (Inr [], \<lparr>clock_reads = 2, requests = take 2 sampleRequests, captures = []\<rparr>)"
    by (simp add: freshWorld_def sample_proxiedAt octet_stream_clock sampleRequests_def)
  with sample_services_built r0 a1 a2 rd ns show ?thesis by simp
qed

section \<open>Properties of the Proxy Resolver\<close>

text \<open>The decimal rendering of the clock reading determines the reading.\<close>

lemma showNat_nonempty: "showNat n \<noteq> []"
  by (subst showNat.simps) simp

lemma digit_char_inj:
  "a < 10 \<Longrightarrow> b < 10 \<Longrightarrow> char_of (48 + a) = char_of (48 + b) \<Longrightarrow> a = b" for a b :: nat
  by simp

lemma showNat_digits: "c \<in> set (showNat n) \<Longrightarrow> 48 \<le> (of_char c :: nat) \<and> (of_char c :: nat) \<le> 57"
proof (induction n rule: showNat.induct)
  case (1 n)
  show ?case
  proof (cases "n < 10")
    case True
    with "1.prems" have "c = char_of (48 + n)" by (subst (asm) showNat.simps) simp
    with True show ?thesis by simp
  next
    case False
    with "1.prems" have "c \<in> set (showNat (n div 10)) \<or> c = char_of (48 + n mod 10)"
      by (subst (asm) showNat.simps) auto
    then show ?thesis
    proof
      assume "c \<in> set (showNat (n div 10))"
      with "1.IH" False show ?thesis by simp
    next
      assume c: "c = char_of (48 + n mod 10)"
      have "n mod 10 < 10" by simp
      then have "(48 + n mod 10) mod 256 = 48 + n mod 10" by simp
      with c show ?thesis by simp
    qed
  qed
qed

lemma showNat_inj: "showNat n = showNat m \<Longrightarrow> n = m"
proof (induction n arbitrary: m rule: showNat.induct)
  case (1 n)
  have sn: "showNat n = (if n < 10 then [char_of (48 + n)]
                         else showNat (n div 10) @ [char_of (48 + n mod 10)])"
    by (rule showNat.simps)
  have sm: "showNat m = (if m < 10 then [char_of (48 + m)]
                         else showNat (m div 10) @ [char_of (48 + m mod 10)])"
    by (rule showNat.simps)
  show ?case
  proof (cases "n < 10")
    case n: True
    show ?thesis
    proof (cases "m < 10")
      case True
      with n "1.prems" sn sm show ?thesis by simp
    next
      case False
      with n "1.prems" sn sm showNat_nonempty [of "m div 10"] show ?thesis by simp
    qed
  next
    case n: False
    show ?thesis
    proof (cases "m < 10")
      case True
      with n "1.prems" sn sm showNat_nonempty [of "n div 10"] show ?thesis by simp
    next
      case False
      with n "1.prems" sn sm
      have e: "showNat (n div 10) = showNat (m div 10)"
        and d: "char_of (48 + n mod 10) = char_of (48 + m mod 10)"
        by simp_all
      from "1.IH" [OF n e] have q: "n div 10 = m div 10" .
      have "n mod 10 < 10" "m mod 10 < 10" by simp_all
      then have r: "n mod 10 = m mod 10" using d by (rule digit_char_inj)
      from q r show ?thesis by (metis div_mult_mod_eq)
    qed
  qed
qed

lemma showInt_inj: "showInt a = showInt b \<Longrightarrow> a = b"
proof -
  assume e: "showInt a = showInt b"
  have nodash: "\<And>n s. showNat n \<noteq> CHR ''-'' # s"
  proof
    fix n s assume "showNat n = CHR ''-'' # s"
    then have "CHR ''-'' \<in> set (showNat n)" by simp
    from showNat_digits [OF this] show False by simp
  qed
  show ?thesis
  proof (cases "a < 0")
    case a: True
    show ?thesis
    proof (cases "b < 0")
      case True
      with a e have "showNat (nat (- a)) = showNat (nat (- b))" by (simp add: showInt_def)
      then have "nat (- a) = nat (- b)" by (rule showNat_inj)
      with a True show ?thesis by simp
    next
      case False
      with a e nodash [of "nat b"] show ?thesis by (simp add: showInt_def) metis
    qed
  next
    case a: False
    show ?thesis
    proof (cases "b < 0")
      case True
      with a e nodash [of "nat a"] show ?thesis by (simp add: showInt_def)
    next
      case False
      with a e have "showNat (nat a) = showNat (nat b)" by (simp add: showInt_def)
      then have "nat a = nat b" by (rule showNat_inj)
      with a False show ?thesis by simp
    qed
  qed
qed

text \<open>
  The encoded target contains no \<open>&\<close> and determines the target, so the first \<open>&\<close> of a
  proxied address separates target and token.
\<close>

lemma hexDigit_code: "n < 16 \<Longrightarrow> (of_char (hexDigit n) :: nat) = (if n < 10 then 48 + n else 55 + n)"
  by (simp add: hexDigit_def)

lemma hexDigit_inj: "a < 16 \<Longrightarrow> b < 16 \<Longrightarrow> hexDigit a = hexDigit b \<Longrightarrow> a = b"
proof -
  assume a: "a < 16" and b: "b < 16" and e: "hexDigit a = hexDigit b"
  from e have "(of_char (hexDigit a) :: nat) = of_char (hexDigit b)" by simp
  with a b show ?thesis by (simp add: hexDigit_code split: if_splits)
qed

lemma hexDigit_not_amp: "n < 16 \<Longrightarrow> hexDigit n \<noteq> CHR ''&''"
proof
  assume n: "n < 16" and "hexDigit n = CHR ''&''"
  then have "(of_char (hexDigit n) :: nat) = of_char (CHR ''&'')" by simp
  with n show False by (simp add: hexDigit_code split: if_splits)
qed

lemma high_nibble: "(of_char c :: nat) div 16 < 16"
proof -
  have "(of_char c :: nat) < 256" by simp
  then show ?thesis by arith
qed

lemma encodeByte_no_amp: "CHR ''&'' \<notin> set (encodeByte c)"
proof (cases "unreserved c")
  case True
  then have "c \<noteq> CHR ''&''" by (auto simp: unreserved_def)
  with True show ?thesis by (simp add: encodeByte_def)
next
  case False
  then show ?thesis
    using hexDigit_not_amp [OF high_nibble [of c]] hexDigit_not_amp [of "(of_char c :: nat) mod 16"]
    by (auto simp: encodeByte_def)
qed

lemma percentEncode_no_amp: "CHR ''&'' \<notin> set (percentEncode u)"
  by (induction u) (simp_all add: percentEncode_def encodeByte_no_amp)

lemma percent_reserved: "\<not> unreserved (CHR ''%'')"
  by (simp add: unreserved_def)

lemma encodeByte_inj:
  assumes "encodeByte c @ r = encodeByte d @ s"
  shows "c = d \<and> r = s"
proof (cases "unreserved c")
  case c: True
  show ?thesis
  proof (cases "unreserved d")
    case True
    with c assms show ?thesis by (simp add: encodeByte_def)
  next
    case False
    with c assms have "c = CHR ''%''" by (simp add: encodeByte_def)
    with c percent_reserved show ?thesis by simp
  qed
next
  case c: False
  show ?thesis
  proof (cases "unreserved d")
    case True
    with c assms have "d = CHR ''%''" by (simp add: encodeByte_def)
    with True percent_reserved show ?thesis by simp
  next
    case False
    with c assms
    have hi: "hexDigit ((of_char c :: nat) div 16) = hexDigit ((of_char d :: nat) div 16)"
      and lo: "hexDigit ((of_char c :: nat) mod 16) = hexDigit ((of_char d :: nat) mod 16)"
      and rs: "r = s"
      by (simp_all add: encodeByte_def)
    from hexDigit_inj [OF high_nibble high_nibble hi]
    have q: "(of_char c :: nat) div 16 = (of_char d :: nat) div 16" .
    have "(of_char c :: nat) mod 16 < 16" "(of_char d :: nat) mod 16 < 16" by simp_all
    then have m: "(of_char c :: nat) mod 16 = (of_char d :: nat) mod 16"
      using lo by (rule hexDigit_inj)
    from q m have "(of_char c :: nat) = of_char d" by (metis div_mult_mod_eq)
    with rs show ?thesis by simp
  qed
qed

lemma encodeByte_nonempty: "encodeByte c \<noteq> []"
  by (simp add: encodeByte_def)

lemma percentEncode_inj: "percentEncode u = percentEncode v \<Longrightarrow> u = v"
proof (induction u arbitrary: v)
  case Nil
  then show ?case
    by (cases v) (simp_all add: percentEncode_def encodeByte_nonempty)
next
  case (Cons c u)
  show ?case
  proof (cases v)
    case Nil
    with Cons.prems show ?thesis by (simp add: percentEncode_def encodeByte_nonempty)
  next
    case (Cons d v')
    with Cons.prems
    have "encodeByte c @ percentEncode u = encodeByte d @ percentEncode v'"
      by (simp add: percentEncode_def)
    from encodeByte_inj [OF this] Cons.IH [of v'] Cons show ?thesis by simp
  qed
qed

lemma split_at_first:
  "x \<notin> set a \<Longrightarrow> x \<notin> set b \<Longrightarrow> a @ x # s = b @ x # t \<Longrightarrow> a = b \<and> s = t"
proof (induction a arbitrary: b)
  case Nil
  then show ?case by (cases b) auto
next
  case (Cons y a)
  then show ?case by (cases b) auto
qed

lemma getProxiedUrl_eq_iff:
  "fst (getProxiedUrl env u1 w1) = fst (getProxiedUrl env u2 w2) \<longleftrightarrow>
     u1 = u2 \<and> Date_now env (clock_reads w1) = Date_now env (clock_reads w2)"
proof
  assume "fst (getProxiedUrl env u1 w1) = fst (getProxiedUrl env u2 w2)"
  then have "percentEncode u1 @ CHR ''&'' # (''output=png&n='' @ showInt (Date_now env (clock_reads w1)))
           = percentEncode u2 @ CHR ''&'' # (''output=png&n='' @ showInt (Date_now env (clock_reads w2)))"
    by (simp add: getProxiedUrl_def)
  from split_at_first [OF percentEncode_no_amp percentEncode_no_amp this]
  have "percentEncode u1 = percentEncode u2"
    and "showInt (Date_now env (clock_reads w1)) = showInt (Date_now env (clock_reads w2))"
    by simp_all
  then show "u1 = u2 \<and> Date_now env (clock_reads w1) = Date_now env (clock_reads w2)"
    by (simp add: percentEncode_inj showInt_inj)
next
  assume "u1 = u2 \<and> Date_now env (clock_reads w1) = Date_now env (clock_reads w2)"
  then show "fst (getProxiedUrl env u1 w1) = fst (getProxiedUrl env u2 w2)"
    by (simp add: getProxiedUrl_def)
qed

lemma getProxiedUrl_token:
  "suffix (''&n='' @ showInt (Date_now env (clock_reads w))) (fst (getProxiedUrl env u w))"
proof -
  have "fst (getProxiedUrl env u w)
          = (''https://wsrv.nl/?url='' @ percentEncode u @ ''&output=png'')
              @ (''&n='' @ showInt (Date_now env (clock_reads w)))"
    by (simp add: getProxiedUrl_def)
  then show ?thesis by (simp only: suffix_def) blast
qed

lemma screenshot_targets_differ:
  "microlinkUrl p vp wt = Inr a \<Longrightarrow> mshotsUrl p vp = Inr b \<Longrightarrow> a \<noteq> b"
  by (auto simp: microlinkUrl_def mshotsUrl_def split: sum.splits)

lemma generateCard_screenshots:
  "generateCard env app p w = (Inr c, w') \<Longrightarrow> backupScreenshotUrl c \<noteq> Some (screenshotUrl c)"
  by (auto simp: generateCard_def case_prod_beta getProxiedUrl_eq_iff
           dest: screenshot_targets_differ
           split: option.splits sum.splits)

lemma generated_screenshots:
  assumes "trim (urlInput app) \<noteq> []"
    and "step (status (fst (handleGenerate env (app, w)))) = completed"
  shows "\<exists>c. cardData (fst (handleGenerate env (app, w))) = Some c \<and>
             backupScreenshotUrl c \<noteq> Some (screenshotUrl c)"
  using assms
  by (auto simp: handleGenerate_def Let_def dest: generateCard_screenshots
           split: prod.splits sum.splits)

text \<open>
  Claim C8, as stated, fails: with a clock that has not advanced between two calls, two
  successive calls for the same target give the same address; and the primary and backup
  screenshot addresses of one generation carry the same token.
\<close>

theorem cache_token_counterexample:
  "Date_now offlineEnv (clock_reads freshWorld)
     = Date_now offlineEnv (clock_reads (snd (getProxiedUrl offlineEnv ''https://example.com/a.png'' freshWorld))) \<and>
   fst (getProxiedUrl offlineEnv ''https://example.com/a.png''
          (snd (getProxiedUrl offlineEnv ''https://example.com/a.png'' freshWorld)))
     = fst (getProxiedUrl offlineEnv ''https://example.com/a.png'' freshWorld) \<and>
   cardData (fst (handleGenerate offlineEnv (typedApp, freshWorld))) = Some generatedCard \<and>
   suffix ''&n=1700000000000'' (screenshotUrl generatedCard) \<and>
   suffix ''&n=1700000000000'' (the (backupScreenshotUrl generatedCard))"
  unfolding typed_generates
  by (simp add: getProxiedUrl_def offlineEnv_def generatedCard_def suffix_to_prefix)

text \<open>
  Claim C8, amended. The token of a proxied address is the clock reading taken by the call,
  and every call reads the clock once. Two calls give the same address exactly when the
  targets are equal and the readings are equal. The primary and backup screenshot addresses
  of a completed generation always differ, whatever the clock, because their targets do.
\<close>

theorem cache_token_is_clock_reading:
  "(fst (getProxiedUrl env u1 w1) = fst (getProxiedUrl env u2 w2) \<longleftrightarrow>
      u1 = u2 \<and> Date_now env (clock_reads w1) = Date_now env (clock_reads w2)) \<and>
   suffix (''&n='' @ showInt (Date_now env (clock_reads w))) (fst (getProxiedUrl env u w)) \<and>
   clock_reads (snd (getProxiedUrl env u w)) = Suc (clock_reads w) \<and>
   (trim (urlInput app) \<noteq> [] \<and> step (status (fst (handleGenerate env (app, w)))) = completed \<longrightarrow>
      (\<exists>c. cardData (fst (handleGenerate env (app, w))) = Some c \<and>
           backupScreenshotUrl c \<noteq> Some (screenshotUrl c)))"
proof (intro conjI impI)
  show "fst (getProxiedUrl env u1 w1) = fst (getProxiedUrl env u2 w2) \<longleftrightarrow>
      u1 = u2 \<and> Date_now env (clock_reads w1) = Date_now env (clock_reads w2)"
    by (rule getProxiedUrl_eq_iff)
  show "suffix (''&n='' @ showInt (Date_now env (clock_reads w))) (fst (getProxiedUrl env u w))"
    by (rule getProxiedUrl_token)
  show "clock_reads (snd (getProxiedUrl env u w)) = Suc (clock_reads w)"
    by (simp add: getProxiedUrl_world)
next
  assume "trim (urlInput app) \<noteq> [] \<and> step (status (fst (handleGenerate env (app, w)))) = completed"
  then show "\<exists>c. cardData (fst (handleGenerate env (app, w))) = Some c \<and>
                 backupScreenshotUrl c \<noteq> Some (screenshotUrl c)"
    by (intro generated_screenshots) simp_all
qed

text \<open>The offline generation: equal tokens, different addresses.\<close>

theorem cache_token_is_clock_reading_witness:
  "trim (urlInput typedApp) \<noteq> [] \<and>
   step (status (fst (handleGenerate offlineEnv (typedApp, freshWorld)))) = completed \<and>
   cardData (fst (handleGenerate offlineEnv (typedApp, freshWorld))) = Some generatedCard \<and>
   backupScreenshotUrl generatedCard \<noteq> Some (screenshotUrl generatedCard)"
  using cache_token_is_clock_reading [where env = offlineEnv and app = typedApp and w = freshWorld]
  unfolding typed_generates
  by (simp add: typedApp_def initialAppState_def string_eval)

end
